theory Spec2Isabelle
  imports Main
begin

section \<open>Data model (src/types.ts)\<close>

record medication =
  med_id :: string
  med_name :: string
  med_dosage :: string
  med_time :: string
  isTaken :: bool

record journal_entry =
  je_id :: string
  je_date :: string
  je_content :: string

record archived_file =
  af_id :: string
  af_name :: string
  af_mimeType :: string
  af_dataUrl :: string

record appointment =
  appt_id :: string
  appt_date :: string
  appt_time :: string
  specialty :: string
  location :: string
  notified :: bool

section \<open>The host platform: numbers, dates, notifications\<close>

text \<open>
  Instants are JavaScript time values: milliseconds as an \<open>int\<close>, read in local civil
  time under a fixed offset from UTC (no daylight-saving transition), so that a local day
  is exactly \<open>msPerDay\<close> long. An invalid \<open>Date\<close> (time value NaN) is \<open>None\<close>;
  every comparison with it is false, as in JavaScript.
\<close>

definition msPerMinute :: int where
  "msPerMinute = 60000"

definition msPerHour :: int where
  "msPerHour = 3600000"

definition msPerDay :: int where
  "msPerDay = 86400000"

definition isDigit :: "char \<Rightarrow> bool" where
  "isDigit c = (48 \<le> (of_char c :: nat) \<and> (of_char c :: nat) \<le> 57)"

definition digitVal :: "char \<Rightarrow> int" where
  "digitVal c = int (of_char c) - 48"

definition decimal :: "string \<Rightarrow> int" where
  "decimal s = foldl (\<lambda>acc c. 10 * acc + digitVal c) 0 s"

text \<open>
  \<open>Number(s)\<close> on the strings a time field holds: a string of ASCII decimal digits is its
  value, the empty string is 0. Every other string is NaN here (JavaScript also reads
  signs, fractions, exponents, radix prefixes and surrounding white space; none occurs
  in an \<open>HH:MM\<close> value). \<open>Number(undefined)\<close> is NaN.
\<close>

definition js_Number :: "string \<Rightarrow> int option" where
  "js_Number s = (if list_all isDigit s then Some (decimal s) else None)"

text \<open>\<open>s.split(':')\<close>: the pieces of \<open>s\<close> between the separators, at least one.\<close>

fun split_colon :: "string \<Rightarrow> string list" where
  "split_colon [] = [[]]"
| "split_colon (c # cs) =
     (if c = CHR '':'' then [] # split_colon cs
      else (case split_colon cs of
              [] \<Rightarrow> [[c]]
            | p # ps \<Rightarrow> (c # p) # ps))"

text \<open>Element \<open>i\<close> of an array after \<open>.map(Number)\<close>; a missing element is \<open>undefined\<close>.\<close>

definition numberAt :: "string list \<Rightarrow> nat \<Rightarrow> int option" where
  "numberAt parts i = (if i < length parts then js_Number (parts ! i) else None)"

text \<open>
  \<open>d.setHours(h, m, 0, 0)\<close> keeps the local day of \<open>d\<close> and replaces the time within the
  day; hours and minutes beyond a day carry over, as \<open>MakeTime\<close> does.
\<close>

definition setHours :: "int \<Rightarrow> int option \<Rightarrow> int option \<Rightarrow> int option" where
  "setHours t hours minutes =
     (case hours of
        None \<Rightarrow> None
      | Some h \<Rightarrow>
          (case minutes of
             None \<Rightarrow> None
           | Some m \<Rightarrow> Some ((t div msPerDay) * msPerDay + h * msPerHour + m * msPerMinute)))"

text \<open>\<open>a > b\<close> and \<open>a <= b\<close> on dates, false when either side is invalid.\<close>

definition date_gt :: "int option \<Rightarrow> int option \<Rightarrow> bool" where
  "date_gt a b = (case a of None \<Rightarrow> False | Some x \<Rightarrow> (case b of None \<Rightarrow> False | Some y \<Rightarrow> x > y))"

definition date_le :: "int option \<Rightarrow> int option \<Rightarrow> bool" where
  "date_le a b = (case a of None \<Rightarrow> False | Some x \<Rightarrow> (case b of None \<Rightarrow> False | Some y \<Rightarrow> x \<le> y))"

subsection \<open>Calendar dates\<close>

definition isLeapYear :: "int \<Rightarrow> bool" where
  "isLeapYear y = ((y mod 4 = 0 \<and> y mod 100 \<noteq> 0) \<or> y mod 400 = 0)"

definition dayFromYear :: "int \<Rightarrow> int" where
  "dayFromYear y =
     365 * (y - 1970) + (y - 1969) div 4 - (y - 1901) div 100 + (y - 1601) div 400"

definition daysInMonth :: "int \<Rightarrow> int \<Rightarrow> int" where
  "daysInMonth y m =
     (if m = 2 then (if isLeapYear y then 29 else 28)
      else if m = 4 \<or> m = 6 \<or> m = 9 \<or> m = 11 then 30
      else 31)"

fun daysBeforeMonth :: "int \<Rightarrow> nat \<Rightarrow> int" where
  "daysBeforeMonth y 0 = 0"
| "daysBeforeMonth y (Suc k) = daysBeforeMonth y k + daysInMonth y (int (Suc k))"

definition makeDay :: "int \<Rightarrow> int \<Rightarrow> int \<Rightarrow> int" where
  "makeDay y m d = dayFromYear y + daysBeforeMonth y (nat (m - 1)) + d - 1"

text \<open>
  \<open>new Date(date + 'T' + time)\<close> for the date-time form without offset, which is local
  time: \<open>YYYY-MM-DD\<close> and \<open>HH:MM\<close> of a calendar day that exists (\<open>24:00\<close> is its end).
  For any other string engines differ (some fall back to a legacy parser); it is an
  invalid date here.
\<close>

definition parseLocalDateTime :: "string \<Rightarrow> string \<Rightarrow> int option" where
  "parseLocalDateTime ds ts =
     (case ds of
        [y1, y2, y3, y4, s1, m1, m2, s2, d1, d2] \<Rightarrow>
          (case ts of
             [h1, h2, s3, n1, n2] \<Rightarrow>
               (if list_all isDigit [y1, y2, y3, y4, m1, m2, d1, d2, h1, h2, n1, n2]
                   \<and> s1 = CHR ''-'' \<and> s2 = CHR ''-'' \<and> s3 = CHR '':''
                then
                  (let y = decimal [y1, y2, y3, y4]; m = decimal [m1, m2];
                       d = decimal [d1, d2]; h = decimal [h1, h2]; n = decimal [n1, n2]
                   in if 1 \<le> m \<and> m \<le> 12 \<and> 1 \<le> d \<and> d \<le> daysInMonth y m
                         \<and> n \<le> 59 \<and> (h \<le> 23 \<or> (h = 24 \<and> n = 0))
                      then Some (makeDay y m d * msPerDay + h * msPerHour + n * msPerMinute)
                      else None)
                else None)
           | _ \<Rightarrow> None)
      | _ \<Rightarrow> None)"

section \<open>Due-event evaluation (src/App.tsx)\<close>

text \<open>
  \<open>isMedicationDue\<close> reads the clock itself (\<open>new Date()\<close>); the instant it reads is the
  second argument here.
\<close>

definition isMedicationDue :: "medication \<Rightarrow> int \<Rightarrow> bool" where
  "isMedicationDue med now =
     (if isTaken med then False
      else
        (let parts = split_colon (med_time med);
             hours = numberAt parts 0;
             minutes = numberAt parts 1;
             medTime = setHours now hours minutes
         in date_gt (Some now) medTime))"

text \<open>The filter of the appointment poll, with the instant read by \<open>new Date()\<close> as argument.\<close>

definition isAppointmentUpcoming :: "int \<Rightarrow> appointment \<Rightarrow> bool" where
  "isAppointmentUpcoming now appt =
     (let twentyFourHoursFromNow = Some (now + 24 * 60 * 60 * 1000)
      in if notified appt then False
         else
           (let apptDateTime = parseLocalDateTime (appt_date appt) (appt_time appt)
            in date_gt apptDateTime (Some now) \<and> date_le apptDateTime twentyFourHoursFromNow))"

section \<open>Application state\<close>

datatype permission = Default | Granted | Denied

datatype js_error = TypeError | SyntaxError

text \<open>
  What a callback leaves behind: it returned, or an exception escaped it. Either way the
  state holds every update made before that point.
\<close>

datatype 'a outcome = Returned 'a | Threw js_error 'a

fun state_of :: "'a outcome \<Rightarrow> 'a" where
  "state_of (Returned s) = s"
| "state_of (Threw e s) = s"

fun returned :: "'a outcome \<Rightarrow> bool" where
  "returned (Returned s) = True"
| "returned (Threw e s) = False"

record notification_options =
  body :: string
  requireInteraction :: bool

type_synonym notification = "string \<times> notification_options option"

text \<open>The tooltip state; its position is a pair of pixel offsets, reset to 0 on close.\<close>

record tooltip =
  medId :: "string option"
  content :: string
  isLoading :: bool
  position :: "int \<times> int"

text \<open>
  The React state of \<open>App\<close> together with what the host shows of its effects: the
  notifications constructed so far and the lines written by \<open>console.error\<close>.
  \<open>showCalls\<close> is instrumentation: the record on whose behalf each call of
  \<open>showNotification\<close> was made, by kind and id, in call order (the call itself carries a
  title and options only).
\<close>

datatype show_call = ForMedication string | ForAppointment string

record app_state =
  permission :: permission
  medications :: "medication list"
  notifiedIds :: "string set"
  showPermissionBanner :: bool
  journalEntries :: "journal_entry list"
  appointments :: "appointment list"
  archivedFiles :: "archived_file list"
  tooltip :: tooltip
  notifications :: "notification list"
  console :: "string list"
  showCalls :: "show_call list"

section \<open>Notification gateway (src/hooks/useNotifications.ts)\<close>

text \<open>
  The hook's permission state starts at \<open>default\<close>; on mount it takes the host's
  permission when the host has \<open>Notification\<close> at all.
\<close>

definition mountPermission :: "bool \<Rightarrow> permission \<Rightarrow> permission" where
  "mountPermission supported hostPermission = (if supported then hostPermission else Default)"

text \<open>
  \<open>new Notification(title, options)\<close>. The constructor belongs to the host and may throw
  a \<open>TypeError\<close> (a host that only allows notifications through a service worker does so
  on every call); \<open>throws\<close> tells for which arguments it does.
\<close>

type_synonym host = "string \<Rightarrow> notification_options option \<Rightarrow> bool"

definition new_Notification ::
  "host \<Rightarrow> string \<Rightarrow> notification_options option \<Rightarrow> app_state \<Rightarrow> app_state outcome" where
  "new_Notification throws title options s =
     (if throws title options then Threw TypeError s
      else Returned (s\<lparr>notifications := notifications s @ [(title, options)]\<rparr>))"

definition showNotification ::
  "host \<Rightarrow> string \<Rightarrow> notification_options option \<Rightarrow> app_state \<Rightarrow> app_state outcome" where
  "showNotification throws title options s =
     (if permission s = Granted then new_Notification throws title options s
      else Returned s)"

section \<open>Persistence (src/App.tsx)\<close>

text \<open>
  \<open>localStorage\<close> maps a key to a string or to nothing. \<open>JSON.parse\<close> is taken per
  collection, at the type TypeScript gives its result: \<open>None\<close> when it throws a
  \<open>SyntaxError\<close>, the decoded sequence otherwise.
\<close>

type_synonym storage = "string \<Rightarrow> string option"

record json =
  parseMedications :: "string \<Rightarrow> medication list option"
  parseJournalEntries :: "string \<Rightarrow> journal_entry list option"
  parseArchivedFiles :: "string \<Rightarrow> archived_file list option"
  parseAppointments :: "string \<Rightarrow> appointment list option"

text \<open>\<open>if (stored)\<close>: a string is truthy when it is not empty; \<open>null\<close> is falsy.\<close>

definition truthy :: "string option \<Rightarrow> bool" where
  "truthy stored = (case stored of None \<Rightarrow> False | Some b \<Rightarrow> b \<noteq> [])"

definition loadFailed :: "app_state \<Rightarrow> app_state" where
  "loadFailed s = s\<lparr>console := console s @ [''Failed to load data from localStorage'']\<rparr>"

text \<open>
  The body of the load effect: one \<open>try\<close> block that reads the four keys in turn, and its
  \<open>catch\<close>, which logs. A state update made before the exception stays.
\<close>

definition loadAppointments :: "json \<Rightarrow> storage \<Rightarrow> app_state \<Rightarrow> app_state" where
  "loadAppointments js st s =
     (let storedAppointments = st ''appointments''
      in if truthy storedAppointments then
           (case parseAppointments js (the storedAppointments) of
              None \<Rightarrow> loadFailed s
            | Some v \<Rightarrow> s\<lparr>appointments := v\<rparr>)
         else s)"

definition loadArchivedFiles :: "json \<Rightarrow> storage \<Rightarrow> app_state \<Rightarrow> app_state" where
  "loadArchivedFiles js st s =
     (let storedFiles = st ''archivedFiles''
      in if truthy storedFiles then
           (case parseArchivedFiles js (the storedFiles) of
              None \<Rightarrow> loadFailed s
            | Some v \<Rightarrow> loadAppointments js st (s\<lparr>archivedFiles := v\<rparr>))
         else loadAppointments js st s)"

definition loadJournalEntries :: "json \<Rightarrow> storage \<Rightarrow> app_state \<Rightarrow> app_state" where
  "loadJournalEntries js st s =
     (let storedJournal = st ''journalEntries''
      in if truthy storedJournal then
           (case parseJournalEntries js (the storedJournal) of
              None \<Rightarrow> loadFailed s
            | Some v \<Rightarrow> loadArchivedFiles js st (s\<lparr>journalEntries := v\<rparr>))
         else loadArchivedFiles js st s)"

definition loadData :: "json \<Rightarrow> storage \<Rightarrow> app_state \<Rightarrow> app_state" where
  "loadData js st s =
     (let storedMeds = st ''medications''
      in if truthy storedMeds then
           (case parseMedications js (the storedMeds) of
              None \<Rightarrow> loadFailed s
            | Some v \<Rightarrow>
                (let s1 = s\<lparr>medications := v\<rparr>;
                     s2 = (if permission s = Default \<and> length v > 0
                           then s1\<lparr>showPermissionBanner := True\<rparr> else s1)
                 in loadJournalEntries js st s2))
         else loadJournalEntries js st s)"

text \<open>
  What loading one key alone gives, and when a stored blob is corrupt: present, not
  empty, and rejected by \<open>JSON.parse\<close>.
\<close>

definition corruptBlob :: "(string \<Rightarrow> 'a option) \<Rightarrow> string option \<Rightarrow> bool" where
  "corruptBlob parse stored = (truthy stored \<and> parse (the stored) = None)"

definition loadedAlone :: "(string \<Rightarrow> 'a option) \<Rightarrow> string option \<Rightarrow> 'a \<Rightarrow> 'a" where
  "loadedAlone parse stored current =
     (if truthy stored then (case parse (the stored) of None \<Rightarrow> current | Some v \<Rightarrow> v)
      else current)"

section \<open>Reminder logic (src/App.tsx)\<close>

text \<open>The callback of the daily reset timer.\<close>

definition dailyReset :: "app_state \<Rightarrow> app_state" where
  "dailyReset s =
     s\<lparr>medications := map (\<lambda>med. med\<lparr>isTaken := False\<rparr>) (medications s),
       notifiedIds := {}\<rparr>"

definition medicationTitle :: string where
  "medicationTitle =
     [CHR 0xE2, CHR 0x8F, CHR 0xB0] @ '' '' @ [CHR 0xC2, CHR 0xA1] @ ''Hora de tu remedio!''"

definition medicationOptions :: "medication \<Rightarrow> notification_options" where
  "medicationOptions med =
     \<lparr>body = ''Es momento de tomar: '' @ med_name med @ '' ''
               @ (if med_dosage med \<noteq> [] then ''('' @ med_dosage med @ '')'' else []),
      requireInteraction = True\<rparr>"

text \<open>\<open>dueMeds.forEach(med => showNotification(...))\<close>: an exception ends the loop.\<close>

fun notifyMedications :: "host \<Rightarrow> medication list \<Rightarrow> app_state \<Rightarrow> app_state outcome" where
  "notifyMedications throws [] s = Returned s"
| "notifyMedications throws (med # rest) s =
     (case showNotification throws medicationTitle (Some (medicationOptions med))
             (s\<lparr>showCalls := showCalls s @ [ForMedication (med_id med)]\<rparr>) of
        Threw e s' \<Rightarrow> Threw e s'
      | Returned s' \<Rightarrow> notifyMedications throws rest s')"

definition dueMedications :: "int \<Rightarrow> app_state \<Rightarrow> medication list" where
  "dueMedications now s =
     filter (\<lambda>med. isMedicationDue med now \<and> med_id med \<notin> notifiedIds s) (medications s)"

text \<open>The interval callback of the medication check, run at the instant \<open>now\<close>.\<close>

definition medicationTick :: "host \<Rightarrow> int \<Rightarrow> app_state \<Rightarrow> app_state outcome" where
  "medicationTick throws now s =
     (let dueMeds = dueMedications now s
      in if length dueMeds > 0 then
           (case notifyMedications throws dueMeds s of
              Threw e s' \<Rightarrow> Threw e s'
            | Returned s' \<Rightarrow>
                Returned (s'\<lparr>notifiedIds := notifiedIds s' \<union> set (map med_id dueMeds)\<rparr>))
         else Returned s)"

text \<open>The effect installs the interval only when permission is granted.\<close>

definition medicationPoll :: "host \<Rightarrow> int \<Rightarrow> app_state \<Rightarrow> app_state outcome" where
  "medicationPoll throws now s =
     (if permission s \<noteq> Granted then Returned s else medicationTick throws now s)"

text \<open>
  \<open>addMedication\<close> with the form fields as submitted and the id that \<open>generateId()\<close>
  returned.
\<close>

record medication_form =
  form_name :: string
  form_dosage :: string
  form_time :: string

definition addMedication :: "string \<Rightarrow> medication_form \<Rightarrow> app_state \<Rightarrow> app_state" where
  "addMedication newId formState s =
     (if form_name formState \<noteq> [] \<and> form_time formState \<noteq> [] then
        (let newMed = \<lparr>med_id = newId, med_name = form_name formState,
                        med_dosage = form_dosage formState, med_time = form_time formState,
                        isTaken = False\<rparr>;
             s1 = s\<lparr>medications := medications s @ [newMed]\<rparr>
         in if permission s = Default then s1\<lparr>showPermissionBanner := True\<rparr> else s1)
      else s)"

definition toggleMedicationTaken :: "string \<Rightarrow> app_state \<Rightarrow> app_state" where
  "toggleMedicationTaken i s =
     s\<lparr>medications :=
         map (\<lambda>med. if med_id med = i then med\<lparr>isTaken := \<not> isTaken med\<rparr> else med)
           (medications s)\<rparr>"

definition handleCloseTooltip :: "app_state \<Rightarrow> app_state" where
  "handleCloseTooltip s =
     s\<lparr>tooltip := \<lparr>medId = None, content = [], isLoading = False, position = (0, 0)\<rparr>\<rparr>"

definition deleteMedication :: "string \<Rightarrow> app_state \<Rightarrow> app_state" where
  "deleteMedication i s =
     (let s1 = s\<lparr>medications := filter (\<lambda>med. med_id med \<noteq> i) (medications s)\<rparr>
      in if medId (tooltip s) = Some i then handleCloseTooltip s1 else s1)"

section \<open>Appointment logic (src/App.tsx)\<close>

definition appointmentTitle :: string where
  "appointmentTitle =
     [CHR 0xF0, CHR 0x9F, CHR 0x97, CHR 0x93, CHR 0xEF, CHR 0xB8, CHR 0x8F]
       @ '' Recordatorio de Turno''"

definition appointmentOptions :: "appointment \<Rightarrow> notification_options" where
  "appointmentOptions appt =
     \<lparr>body = ''Ma'' @ [CHR 0xC3, CHR 0xB1] @ ''ana tienes un turno de '' @ specialty appt
               @ '' a las '' @ appt_time appt @ ''.'',
      requireInteraction = True\<rparr>"

fun notifyAppointments :: "host \<Rightarrow> appointment list \<Rightarrow> app_state \<Rightarrow> app_state outcome" where
  "notifyAppointments throws [] s = Returned s"
| "notifyAppointments throws (appt # rest) s =
     (case showNotification throws appointmentTitle (Some (appointmentOptions appt))
             (s\<lparr>showCalls := showCalls s @ [ForAppointment (appt_id appt)]\<rparr>) of
        Threw e s' \<Rightarrow> Threw e s'
      | Returned s' \<Rightarrow> notifyAppointments throws rest s')"

definition upcomingAppointments :: "int \<Rightarrow> app_state \<Rightarrow> appointment list" where
  "upcomingAppointments now s = filter (isAppointmentUpcoming now) (appointments s)"

text \<open>The interval callback of the appointment check, run at the instant \<open>now\<close>.\<close>

definition appointmentTick :: "host \<Rightarrow> int \<Rightarrow> app_state \<Rightarrow> app_state outcome" where
  "appointmentTick throws now s =
     (let upcoming = upcomingAppointments now s
      in if length upcoming > 0 then
           (case notifyAppointments throws upcoming s of
              Threw e s' \<Rightarrow> Threw e s'
            | Returned s' \<Rightarrow>
                Returned (s'\<lparr>appointments :=
                   map (\<lambda>appt. if find (\<lambda>up. appt_id up = appt_id appt) upcoming \<noteq> None
                                then appt\<lparr>notified := True\<rparr> else appt)
                     (appointments s')\<rparr>))
         else Returned s)"

text \<open>The function that the tick maps over the collection, by name.\<close>

definition markNotified :: "appointment list \<Rightarrow> appointment \<Rightarrow> appointment" where
  "markNotified upcoming appt =
     (if find (\<lambda>up. appt_id up = appt_id appt) upcoming \<noteq> None
      then appt\<lparr>notified := True\<rparr> else appt)"

definition appointmentPoll :: "host \<Rightarrow> int \<Rightarrow> app_state \<Rightarrow> app_state outcome" where
  "appointmentPoll throws now s =
     (if permission s \<noteq> Granted then Returned s else appointmentTick throws now s)"

record appointment_form =
  form_date :: string
  form_appt_time :: string
  form_specialty :: string
  form_location :: string

definition addAppointment :: "string \<Rightarrow> appointment_form \<Rightarrow> app_state \<Rightarrow> app_state" where
  "addAppointment newId appointmentForm s =
     (if form_date appointmentForm \<noteq> [] \<and> form_appt_time appointmentForm \<noteq> []
         \<and> form_specialty appointmentForm \<noteq> [] \<and> form_location appointmentForm \<noteq> []
      then
        (let newAppointment =
               \<lparr>appt_id = newId, appt_date = form_date appointmentForm,
                appt_time = form_appt_time appointmentForm,
                specialty = form_specialty appointmentForm,
                location = form_location appointmentForm, notified = False\<rparr>
         in s\<lparr>appointments := appointments s @ [newAppointment]\<rparr>)
      else s)"

definition deleteAppointment :: "string \<Rightarrow> app_state \<Rightarrow> app_state" where
  "deleteAppointment i s =
     s\<lparr>appointments := filter (\<lambda>appt. appt_id appt \<noteq> i) (appointments s)\<rparr>"

section \<open>Runs of the application\<close>

text \<open>
  The event loop runs one callback at a time: a timer fires or the user acts. An
  exception that escapes an interval callback is reported by the host and the interval
  goes on, so the run continues from the state the callback left.
\<close>

datatype event =
    MedicationPoll int
  | AppointmentPoll int
  | DailyReset
  | AddMedication string medication_form
  | ToggleMedicationTaken string
  | DeleteMedication string
  | AddAppointment string appointment_form
  | DeleteAppointment string

fun fire :: "host \<Rightarrow> event \<Rightarrow> app_state \<Rightarrow> app_state" where
  "fire throws (MedicationPoll now) s = state_of (medicationPoll throws now s)"
| "fire throws (AppointmentPoll now) s = state_of (appointmentPoll throws now s)"
| "fire throws DailyReset s = dailyReset s"
| "fire throws (AddMedication newId formState) s = addMedication newId formState s"
| "fire throws (ToggleMedicationTaken i) s = toggleMedicationTaken i s"
| "fire throws (DeleteMedication i) s = deleteMedication i s"
| "fire throws (AddAppointment newId appointmentForm) s = addAppointment newId appointmentForm s"
| "fire throws (DeleteAppointment i) s = deleteAppointment i s"

fun run :: "host \<Rightarrow> event list \<Rightarrow> app_state \<Rightarrow> app_state" where
  "run throws [] s = s"
| "run throws (e # es) s = run throws es (fire throws e s)"

text \<open>The ids that \<open>generateId()\<close> hands out during a run, per collection.\<close>

fun addedMedicationIds :: "event list \<Rightarrow> string list" where
  "addedMedicationIds [] = []"
| "addedMedicationIds (AddMedication newId formState # es) = newId # addedMedicationIds es"
| "addedMedicationIds (e # es) = addedMedicationIds es"

fun addedAppointmentIds :: "event list \<Rightarrow> string list" where
  "addedAppointmentIds [] = []"
| "addedAppointmentIds (AddAppointment newId appointmentForm # es) = newId # addedAppointmentIds es"
| "addedAppointmentIds (e # es) = addedAppointmentIds es"

text \<open>The calls of \<open>showNotification\<close> made since the state \<open>s\<close>.\<close>

definition callsSince :: "app_state \<Rightarrow> app_state \<Rightarrow> show_call list" where
  "callsSince s s' = drop (length (showCalls s)) (showCalls s')"

section \<open>Example records, states and runs\<close>

text \<open>Records of each collection.\<close>

definition med0 :: medication where
  "med0 = \<lparr>med_id = ''id_1'', med_name = ''Ibuprofeno'', med_dosage = ''400mg'',
           med_time = ''14:30'', isTaken = False\<rparr>"

definition med1 :: medication where
  "med1 = \<lparr>med_id = ''id_2'', med_name = ''Loratadina'', med_dosage = [],
           med_time = ''09:00'', isTaken = True\<rparr>"

definition med2 :: medication where
  "med2 = \<lparr>med_id = ''id_5'', med_name = ''Amoxicilina'', med_dosage = ''500mg'',
           med_time = ''08:00'', isTaken = False\<rparr>"

definition appt0 :: appointment where
  "appt0 = \<lparr>appt_id = ''id_7'', appt_date = ''2024-03-15'', appt_time = ''16:45'',
            specialty = ''Cardiologia'', location = ''Hospital Central'', notified = False\<rparr>"

definition je0 :: journal_entry where
  "je0 = \<lparr>je_id = ''id_3'', je_date = ''2024-01-01T08:00:00.000Z'', je_content = ''Bien''\<rparr>"

definition af0 :: archived_file where
  "af0 = \<lparr>af_id = ''id_4'', af_name = ''receta.png'', af_mimeType = ''image/png'',
          af_dataUrl = ''data:image/png;base64,AAAA''\<rparr>"

text \<open>The state of \<open>App\<close> at its first render, and three states later in a session.\<close>

definition initialState :: app_state where
  "initialState =
     \<lparr>permission = Default, medications = [], notifiedIds = {},
      showPermissionBanner = False, journalEntries = [], appointments = [],
      archivedFiles = [],
      tooltip = \<lparr>medId = None, content = [], isLoading = False, position = (0, 0)\<rparr>,
      notifications = [], console = [], showCalls = []\<rparr>"

definition state0 :: app_state where
  "state0 =
     \<lparr>permission = Granted, medications = [med0, med1], notifiedIds = {''id_1''},
      showPermissionBanner = False, journalEntries = [], appointments = [appt0],
      archivedFiles = [],
      tooltip = \<lparr>medId = Some ''id_1'', content = ''info'', isLoading = False, position = (120, 48)\<rparr>,
      notifications = [], console = [], showCalls = []\<rparr>"

definition state2 :: app_state where
  "state2 =
     \<lparr>permission = Granted, medications = [med0, med2], notifiedIds = {},
      showPermissionBanner = False, journalEntries = [], appointments = [],
      archivedFiles = [],
      tooltip = \<lparr>medId = None, content = [], isLoading = False, position = (0, 0)\<rparr>,
      notifications = [], console = [], showCalls = []\<rparr>"

definition state3 :: app_state where
  "state3 = state0\<lparr>appointments := [appt0\<lparr>notified := True\<rparr>]\<rparr>"

text \<open>Instants: 15:00:00 local time on day 19723 (2024-01-01), and 30 seconds later.\<close>

definition afternoon :: int where
  "afternoon = 19723 * msPerDay + 15 * msPerHour"

definition later :: int where
  "later = afternoon + 30000"

text \<open>Hosts: constructors that never throw, always throw, or throw for one notification.\<close>

definition neverThrows :: host where
  "neverThrows title options = False"

definition alwaysThrows :: host where
  "alwaysThrows title options = True"

definition throwsOnAmoxicilina :: host where
  "throwsOnAmoxicilina title options = (options = Some (medicationOptions med2))"

text \<open>Submitted forms and runs of events.\<close>

definition form0 :: medication_form where
  "form0 = \<lparr>form_name = ''Paracetamol'', form_dosage = [], form_time = ''10:00''\<rparr>"

definition apptForm0 :: appointment_form where
  "apptForm0 = \<lparr>form_date = ''2024-03-16'', form_appt_time = ''09:15'',
                form_specialty = ''Pediatria'', form_location = ''Consultorio 2''\<rparr>"

definition events0 :: "event list" where
  "events0 = [MedicationPoll afternoon, ToggleMedicationTaken ''id_5'',
              AddMedication ''id_9'' form0, MedicationPoll later]"


definition events2 :: "event list" where
  "events2 = [AppointmentPoll 1710500000000, DailyReset, AddAppointment ''id_8'' apptForm0,
              AppointmentPoll 1710500300000, DeleteAppointment ''id_8'',
              AppointmentPoll 1710500600000]"

text \<open>A decoder that knows four blobs, and two stores: one blob corrupt in each.\<close>

definition json0 :: json where
  "json0 =
     \<lparr>parseMedications = (\<lambda>b. if b = ''[M]'' then Some [med0] else None),
      parseJournalEntries = (\<lambda>b. if b = ''[J]'' then Some [je0] else None),
      parseArchivedFiles = (\<lambda>b. if b = ''[F]'' then Some [af0] else None),
      parseAppointments = (\<lambda>b. if b = ''[A]'' then Some [appt0] else None)\<rparr>"

definition storageBadMedications :: storage where
  "storageBadMedications =
     (\<lambda>k. if k = ''medications'' then Some ''[M''
          else if k = ''journalEntries'' then Some ''[J]''
          else if k = ''archivedFiles'' then Some ''[F]''
          else if k = ''appointments'' then Some ''[A]''
          else None)"

definition storageBadAppointments :: storage where
  "storageBadAppointments =
     (\<lambda>k. if k = ''medications'' then Some ''[M]''
          else if k = ''journalEntries'' then Some ''[J]''
          else if k = ''archivedFiles'' then Some ''[F]''
          else if k = ''appointments'' then Some ''[A''
          else None)"

section \<open>The due-event evaluator\<close>

lemma isDigit_not_colon: "isDigit c \<Longrightarrow> c \<noteq> CHR '':''"
  by (auto simp: isDigit_def)

lemma split_colon_hhmm:
  "list_all isDigit [h1, h2, m1, m2] \<Longrightarrow>
   split_colon [h1, h2, CHR '':'', m1, m2] = [[h1, h2], [m1, m2]]"
  by (simp add: isDigit_not_colon)

lemma medTime_hhmm:
  assumes "med_time med = [h1, h2, CHR '':'', m1, m2]" and "list_all isDigit [h1, h2, m1, m2]"
  shows "setHours now (numberAt (split_colon (med_time med)) 0)
           (numberAt (split_colon (med_time med)) 1)
         = Some ((now div msPerDay) * msPerDay + decimal [h1, h2] * msPerHour
                 + decimal [m1, m2] * msPerMinute)"
  using assms
  by (simp add: split_colon_hhmm numberAt_def js_Number_def setHours_def isDigit_not_colon)

lemma day_of_instant: "0 \<le> k \<Longrightarrow> k < msPerDay \<Longrightarrow> (d * msPerDay + k) div msPerDay = d"
  by (simp add: msPerDay_def)

text \<open>
  C5. \<open>isMedicationDue\<close> is false for a taken medication. For one not taken whose time is
  \<open>HH:MM\<close> it is true exactly when the instant read is strictly after that time of the
  instant's own local day. A medication at \<open>09:00\<close>, not taken, is not due at 08:59:59
  nor at 09:00:00 of any day, and is due at 09:00:01 of that day.
\<close>

theorem isMedicationDue_spec:
  "(isTaken med \<longrightarrow> \<not> isMedicationDue med now)
   \<and> (\<not> isTaken med \<and> med_time med = [h1, h2, CHR '':'', m1, m2]
        \<and> list_all isDigit [h1, h2, m1, m2] \<longrightarrow>
      isMedicationDue med now =
        (now > (now div msPerDay) * msPerDay + decimal [h1, h2] * msPerHour
                 + decimal [m1, m2] * msPerMinute))
   \<and> \<not> isMedicationDue (med\<lparr>med_time := ''09:00'', isTaken := False\<rparr>)
          (d * msPerDay + 8 * msPerHour + 59 * msPerMinute + 59000)
   \<and> \<not> isMedicationDue (med\<lparr>med_time := ''09:00'', isTaken := False\<rparr>)
          (d * msPerDay + 9 * msPerHour)
   \<and> isMedicationDue (med\<lparr>med_time := ''09:00'', isTaken := False\<rparr>)
          (d * msPerDay + 9 * msPerHour + 1000)"
proof -
  let ?nine = "med\<lparr>med_time := ''09:00'', isTaken := False\<rparr>"
  have taken: "isTaken med \<longrightarrow> \<not> isMedicationDue med now"
    by (simp add: isMedicationDue_def)
  have general: "isMedicationDue m t =
        (t > (t div msPerDay) * msPerDay + decimal [a, b] * msPerHour
               + decimal [c, e] * msPerMinute)"
    if "\<not> isTaken m" "med_time m = [a, b, CHR '':'', c, e]" "list_all isDigit [a, b, c, e]"
    for m t a b c e
    using that medTime_hhmm [of m a b c e t]
    by (simp add: isMedicationDue_def Let_def date_gt_def)
  have nine: "isMedicationDue ?nine t = (t > (t div msPerDay) * msPerDay + 9 * msPerHour)" for t
    using general [of ?nine "CHR ''0''" "CHR ''9''" "CHR ''0''" "CHR ''0''" t]
    by (simp add: isDigit_def decimal_def digitVal_def)
  have d1: "(d * msPerDay + 8 * msPerHour + 59 * msPerMinute + 59000) div msPerDay = d"
    using day_of_instant [of "8 * msPerHour + 59 * msPerMinute + 59000" d]
    by (simp add: msPerDay_def msPerHour_def msPerMinute_def)
  have d2: "(d * msPerDay + 9 * msPerHour) div msPerDay = d"
    using day_of_instant [of "9 * msPerHour" d]
    by (simp add: msPerDay_def msPerHour_def)
  have d3: "(d * msPerDay + 9 * msPerHour + 1000) div msPerDay = d"
    using day_of_instant [of "9 * msPerHour + 1000" d]
    by (simp add: msPerDay_def msPerHour_def)
  have before: "\<not> isMedicationDue ?nine (d * msPerDay + 8 * msPerHour + 59 * msPerMinute + 59000)"
    unfolding nine d1 by (simp add: msPerHour_def msPerMinute_def)
  have at: "\<not> isMedicationDue ?nine (d * msPerDay + 9 * msPerHour)"
    unfolding nine d2 by simp
  have after: "isMedicationDue ?nine (d * msPerDay + 9 * msPerHour + 1000)"
    unfolding nine d3 by simp
  from taken general before at after show ?thesis by blast
qed

theorem isMedicationDue_spec_witness:
  "isTaken (med0\<lparr>isTaken := True\<rparr>)
   \<and> \<not> isMedicationDue (med0\<lparr>isTaken := True\<rparr>) (19723 * msPerDay + 15 * msPerHour)
   \<and> \<not> isTaken med0 \<and> med_time med0 = ''14:30'' \<and> list_all isDigit ''1430''
   \<and> isMedicationDue med0 (19723 * msPerDay + 15 * msPerHour)
   \<and> \<not> isMedicationDue med0 (19723 * msPerDay + 14 * msPerHour + 30 * msPerMinute)"
  using isMedicationDue_spec [of "med0\<lparr>isTaken := True\<rparr>" "19723 * msPerDay + 15 * msPerHour"]
    isMedicationDue_spec [of med0 "19723 * msPerDay + 15 * msPerHour"
      "CHR ''1''" "CHR ''4''" "CHR ''3''" "CHR ''0''"]
    isMedicationDue_spec [of med0 "19723 * msPerDay + 14 * msPerHour + 30 * msPerMinute"
      "CHR ''1''" "CHR ''4''" "CHR ''3''" "CHR ''0''"]
  by (simp add: med0_def isDigit_def decimal_def digitVal_def msPerDay_def msPerHour_def
      msPerMinute_def)

lemmas calendar_defs =
  parseLocalDateTime_def isDigit_def decimal_def digitVal_def daysInMonth_def makeDay_def
  dayFromYear_def isLeapYear_def msPerDay_def msPerHour_def msPerMinute_def eval_nat_numeral

lemma parse_2024_01_01_1000: "parseLocalDateTime ''2024-01-01'' ''10:00'' = Some 1704103200000"
  by (simp add: calendar_defs)

lemma parse_2024_01_02_0959: "parseLocalDateTime ''2024-01-02'' ''09:59'' = Some 1704189540000"
  by (simp add: calendar_defs)

lemma parse_2024_01_02_1000: "parseLocalDateTime ''2024-01-02'' ''10:00'' = Some 1704189600000"
  by (simp add: calendar_defs)

lemma parse_2024_01_02_1001: "parseLocalDateTime ''2024-01-02'' ''10:01'' = Some 1704189660000"
  by (simp add: calendar_defs)

lemma parse_appt0: "parseLocalDateTime ''2024-03-15'' ''16:45'' = Some 1710521100000"
  by (simp add: calendar_defs)

lemma upcoming_iff:
  "isAppointmentUpcoming now appt =
     (\<not> notified appt \<and>
      (case parseLocalDateTime (appt_date appt) (appt_time appt) of
         None \<Rightarrow> False
       | Some t \<Rightarrow> now < t \<and> t \<le> now + 24 * msPerHour))"
  by (simp add: isAppointmentUpcoming_def Let_def date_gt_def date_le_def msPerHour_def
      split: option.splits)

text \<open>
  C6. The upcoming-check is false for a notified appointment. Otherwise, with \<open>t\<close> the
  instant its date and time denote, it is true exactly when \<open>t\<close> is strictly after now and
  at most 24 hours after now; it is false when \<open>t\<close> has passed and when date and time
  denote no instant. With now = 2024-01-01T10:00, an appointment at 2024-01-02T09:59 is
  upcoming, so is one at 2024-01-02T10:00, and one at 2024-01-02T10:01 is not.
\<close>

theorem isAppointmentUpcoming_spec:
  "(notified appt \<longrightarrow> \<not> isAppointmentUpcoming now appt)
   \<and> (\<not> notified appt \<and> parseLocalDateTime (appt_date appt) (appt_time appt) = Some t \<longrightarrow>
        isAppointmentUpcoming now appt = (now < t \<and> t \<le> now + 24 * msPerHour))
   \<and> (parseLocalDateTime (appt_date appt) (appt_time appt) = Some t \<and> t \<le> now \<longrightarrow>
        \<not> isAppointmentUpcoming now appt)
   \<and> (parseLocalDateTime (appt_date appt) (appt_time appt) = None \<longrightarrow>
        \<not> isAppointmentUpcoming now appt)
   \<and> parseLocalDateTime ''2024-01-01'' ''10:00'' = Some 1704103200000
   \<and> isAppointmentUpcoming 1704103200000
        (appt\<lparr>appt_date := ''2024-01-02'', appt_time := ''09:59'', notified := False\<rparr>)
   \<and> isAppointmentUpcoming 1704103200000
        (appt\<lparr>appt_date := ''2024-01-02'', appt_time := ''10:00'', notified := False\<rparr>)
   \<and> \<not> isAppointmentUpcoming 1704103200000
        (appt\<lparr>appt_date := ''2024-01-02'', appt_time := ''10:01'', notified := False\<rparr>)"
proof -
  have a: "isAppointmentUpcoming 1704103200000
        (appt\<lparr>appt_date := ''2024-01-02'', appt_time := ''09:59'', notified := False\<rparr>)"
    by (simp add: upcoming_iff parse_2024_01_02_0959 msPerHour_def)
  have b: "isAppointmentUpcoming 1704103200000
        (appt\<lparr>appt_date := ''2024-01-02'', appt_time := ''10:00'', notified := False\<rparr>)"
    by (simp add: upcoming_iff parse_2024_01_02_1000 msPerHour_def)
  have c: "\<not> isAppointmentUpcoming 1704103200000
        (appt\<lparr>appt_date := ''2024-01-02'', appt_time := ''10:01'', notified := False\<rparr>)"
    by (simp add: upcoming_iff parse_2024_01_02_1001 msPerHour_def)
  show ?thesis
    using a b c parse_2024_01_01_1000 by (simp add: upcoming_iff)
qed

theorem isAppointmentUpcoming_spec_witness:
  "notified (appt0\<lparr>notified := True\<rparr>)
   \<and> \<not> isAppointmentUpcoming 1710500000000 (appt0\<lparr>notified := True\<rparr>)
   \<and> \<not> notified appt0
   \<and> parseLocalDateTime (appt_date appt0) (appt_time appt0) = Some 1710521100000
   \<and> isAppointmentUpcoming 1710500000000 appt0
   \<and> 1710521100000 \<le> (1710521100000 :: int)
   \<and> \<not> isAppointmentUpcoming 1710521100000 appt0
   \<and> parseLocalDateTime (appt_date (appt0\<lparr>appt_date := ''2024-02-30''\<rparr>)) (appt_time appt0) = None
   \<and> \<not> isAppointmentUpcoming 1710500000000 (appt0\<lparr>appt_date := ''2024-02-30''\<rparr>)"
proof -
  have p: "parseLocalDateTime (appt_date appt0) (appt_time appt0) = Some 1710521100000"
    by (simp add: appt0_def parse_appt0)
  have q: "parseLocalDateTime (appt_date (appt0\<lparr>appt_date := ''2024-02-30''\<rparr>))
             (appt_time (appt0\<lparr>appt_date := ''2024-02-30''\<rparr>)) = None"
    by (simp add: appt0_def calendar_defs)
  have n: "\<not> notified appt0"
    by (simp add: appt0_def)
  show ?thesis
    using isAppointmentUpcoming_spec [of "appt0\<lparr>notified := True\<rparr>" 1710500000000]
      isAppointmentUpcoming_spec [of appt0 1710500000000 1710521100000]
      isAppointmentUpcoming_spec [of appt0 1710521100000 1710521100000]
      isAppointmentUpcoming_spec [of "appt0\<lparr>appt_date := ''2024-02-30''\<rparr>" 1710500000000]
      p q n
    by (simp add: msPerHour_def)
qed

section \<open>Daily reset\<close>

text \<open>
  C8. The daily reset is idempotent: one application sets every medication's taken flag
  to false (changing nothing else of a medication) and empties the notified-set; a second
  application right after it gives the same state, so flags and set are as after the
  first. No application touches the appointments, hence none of their notified flags.
\<close>

theorem dailyReset_idempotent:
  "dailyReset (dailyReset s) = dailyReset s
   \<and> (\<forall>med \<in> set (medications (dailyReset s)). \<not> isTaken med)
   \<and> medications (dailyReset s) = map (\<lambda>med. med\<lparr>isTaken := False\<rparr>) (medications s)
   \<and> notifiedIds (dailyReset s) = {}
   \<and> (\<forall>med \<in> set (medications (dailyReset (dailyReset s))). \<not> isTaken med)
   \<and> notifiedIds (dailyReset (dailyReset s)) = {}
   \<and> appointments (dailyReset s) = appointments s
   \<and> appointments (dailyReset (dailyReset s)) = appointments s"
  by (auto simp: dailyReset_def)

theorem dailyReset_idempotent_witness:
  "med1 \<in> set (medications state0) \<and> isTaken med1 \<and> notifiedIds state0 = {''id_1''}
   \<and> medications (dailyReset state0) = [med0, med1\<lparr>isTaken := False\<rparr>]
   \<and> \<not> isTaken (med1\<lparr>isTaken := False\<rparr>)
   \<and> dailyReset (dailyReset state0) = dailyReset state0
   \<and> notifiedIds (dailyReset state0) = {}
   \<and> appointments (dailyReset state0) = [appt0]"
  using dailyReset_idempotent [of state0]
  by (simp add: state0_def med0_def med1_def)

section \<open>The gateway\<close>

text \<open>
  C9, as stated, fails: with permission granted and a constructor that throws, the show
  operation creates no notification and the exception escapes it.
\<close>

theorem showNotification_throw_counterexample:
  "permission state0 = Granted
   \<and> alwaysThrows ''Hola'' None
   \<and> showNotification alwaysThrows ''Hola'' None state0 = Threw TypeError state0
   \<and> notifications (state_of (showNotification alwaysThrows ''Hola'' None state0))
       = notifications state0
   \<and> notifications state0 = []"
proof -
  have "permission state0 = Granted" "notifications state0 = []"
    by (simp_all add: state0_def)
  then show ?thesis
    by (simp add: showNotification_def new_Notification_def alwaysThrows_def)
qed

text \<open>
  C9, amended. Whenever the permission state is not granted (denied, default, or default
  because the host has no notifications at all), the show operation returns without
  creating a notification and without an exception, for every title and options. When
  permission is granted it is the host's constructor applied to that title and those
  options: if the constructor returns, a notification of that title and those options
  is created; if it throws, no notification is created and the exception escapes the
  show operation.
\<close>

theorem showNotification_gated:
  "(permission s \<noteq> Granted \<longrightarrow> showNotification throws title options s = Returned s)
   \<and> (permission s = mountPermission False hostPermission \<longrightarrow>
        showNotification throws title options s = Returned s)
   \<and> (permission s = Granted \<longrightarrow>
        showNotification throws title options s = new_Notification throws title options s)
   \<and> (permission s = Granted \<and> \<not> throws title options \<longrightarrow>
        showNotification throws title options s =
          Returned (s\<lparr>notifications := notifications s @ [(title, options)]\<rparr>))
   \<and> (permission s = Granted \<and> throws title options \<longrightarrow>
        showNotification throws title options s = Threw TypeError s)"
  by (simp add: showNotification_def new_Notification_def mountPermission_def)

theorem showNotification_gated_witness:
  "permission (state0\<lparr>permission := Denied\<rparr>) \<noteq> Granted
   \<and> showNotification alwaysThrows medicationTitle (Some (medicationOptions med0))
        (state0\<lparr>permission := Denied\<rparr>) = Returned (state0\<lparr>permission := Denied\<rparr>)
   \<and> permission (state0\<lparr>permission := Default\<rparr>) = mountPermission False Granted
   \<and> showNotification alwaysThrows medicationTitle None
        (state0\<lparr>permission := Default\<rparr>) = Returned (state0\<lparr>permission := Default\<rparr>)
   \<and> permission state0 = Granted
   \<and> \<not> neverThrows ''Hola'' None
   \<and> showNotification neverThrows ''Hola'' None state0
       = Returned (state0\<lparr>notifications := [(''Hola'', None)]\<rparr>)
   \<and> alwaysThrows ''Hola'' None
   \<and> showNotification alwaysThrows ''Hola'' None state0 = Threw TypeError state0"
proof -
  have g: "permission state0 = Granted" "notifications state0 = []"
    by (simp_all add: state0_def)
  have h: "\<not> neverThrows ''Hola'' None" "alwaysThrows ''Hola'' None"
    by (simp_all add: neverThrows_def alwaysThrows_def)
  have d: "permission (state0\<lparr>permission := Denied\<rparr>) \<noteq> Granted"
    "permission (state0\<lparr>permission := Default\<rparr>) = mountPermission False Granted"
    by (simp_all add: mountPermission_def)
  have denied: "showNotification alwaysThrows medicationTitle (Some (medicationOptions med0))
        (state0\<lparr>permission := Denied\<rparr>) = Returned (state0\<lparr>permission := Denied\<rparr>)"
    using showNotification_gated [of "state0\<lparr>permission := Denied\<rparr>" alwaysThrows
      medicationTitle "Some (medicationOptions med0)" Granted] d(1)
    by blast
  have unsupported: "showNotification alwaysThrows medicationTitle None
        (state0\<lparr>permission := Default\<rparr>) = Returned (state0\<lparr>permission := Default\<rparr>)"
    using showNotification_gated [of "state0\<lparr>permission := Default\<rparr>" alwaysThrows
      medicationTitle None Granted] d(2)
    by blast
  have granted: "showNotification neverThrows ''Hola'' None state0
        = Returned (state0\<lparr>notifications := notifications state0 @ [(''Hola'', None)]\<rparr>)"
    using showNotification_gated [of state0 neverThrows "''Hola''" None Granted] g(1) h(1)
    by blast
  then have granted': "showNotification neverThrows ''Hola'' None state0
        = Returned (state0\<lparr>notifications := [(''Hola'', None)]\<rparr>)"
    by (simp add: g(2))
  have thrown: "showNotification alwaysThrows ''Hola'' None state0 = Threw TypeError state0"
    using showNotification_gated [of state0 alwaysThrows "''Hola''" None Granted] g(1) h(2)
    by blast
  from d denied unsupported g(1) h granted' thrown show ?thesis
    by blast
qed

section \<open>Record mutators\<close>

lemma toggle_map_twice:
  "map (\<lambda>med. if med_id med = i then med\<lparr>isTaken := \<not> isTaken med\<rparr> else med)
     (map (\<lambda>med. if med_id med = i then med\<lparr>isTaken := \<not> isTaken med\<rparr> else med) xs)
   = (xs :: medication list)"
  by (induction xs) auto

lemma toggle_twice: "toggleMedicationTaken i (toggleMedicationTaken i s) = s"
  unfolding toggleMedicationTaken_def by (simp add: toggle_map_twice del: map_map)

lemma toggle_map_other:
  "i \<notin> set (map med_id xs) \<Longrightarrow>
   map (\<lambda>med. if med_id med = i then med\<lparr>isTaken := \<not> isTaken med\<rparr> else med) xs
   = (xs :: medication list)"
  by (induction xs) auto

text \<open>
  C10. \<open>toggleMedicationTaken\<close> is an involution on every state and id. One application
  keeps the length and order of the collection and changes, position by position, only
  the taken flag of the records with that id; for an id held by one record, that record's
  flag is flipped, its id, name, dosage and time stay, and all other records and the
  rest of the state are unchanged.
\<close>

theorem toggleMedicationTaken_involution:
  "toggleMedicationTaken i (toggleMedicationTaken i s) = s
   \<and> length (medications (toggleMedicationTaken i s)) = length (medications s)
   \<and> (\<forall>k < length (medications s).
        medications (toggleMedicationTaken i s) ! k =
          (if med_id (medications s ! k) = i
           then (medications s ! k)\<lparr>isTaken := \<not> isTaken (medications s ! k)\<rparr>
           else medications s ! k))
   \<and> (medications s = before @ [med] @ after \<and> med_id med = i
        \<and> i \<notin> set (map med_id before) \<and> i \<notin> set (map med_id after) \<longrightarrow>
      medications (toggleMedicationTaken i s)
        = before @ [med\<lparr>isTaken := \<not> isTaken med\<rparr>] @ after
      \<and> med_id (med\<lparr>isTaken := \<not> isTaken med\<rparr>) = med_id med
      \<and> med_name (med\<lparr>isTaken := \<not> isTaken med\<rparr>) = med_name med
      \<and> med_dosage (med\<lparr>isTaken := \<not> isTaken med\<rparr>) = med_dosage med
      \<and> med_time (med\<lparr>isTaken := \<not> isTaken med\<rparr>) = med_time med)
   \<and> toggleMedicationTaken i s = s\<lparr>medications := medications (toggleMedicationTaken i s)\<rparr>"
  using toggle_twice [of i s] by (auto simp: toggleMedicationTaken_def toggle_map_other)

theorem toggleMedicationTaken_involution_witness:
  "medications state0 = [med0] @ [med1] @ [] \<and> med_id med1 = ''id_2''
   \<and> ''id_2'' \<notin> set (map med_id [med0]) \<and> ''id_2'' \<notin> set (map med_id [])
   \<and> (1::nat) < length (medications state0)
   \<and> medications (toggleMedicationTaken ''id_2'' state0) = [med0, med1\<lparr>isTaken := False\<rparr>]
   \<and> medications (toggleMedicationTaken ''id_2'' state0) ! 1 = med1\<lparr>isTaken := False\<rparr>
   \<and> toggleMedicationTaken ''id_2'' (toggleMedicationTaken ''id_2'' state0) = state0"
  using toggleMedicationTaken_involution [of "''id_2''" state0 "[med0]" med1 "[]"]
  by (simp add: state0_def med0_def med1_def)

section \<open>Loading the persisted collections\<close>

lemma loadAppointments_fields:
  "medications (loadAppointments js st s) = medications s"
  "journalEntries (loadAppointments js st s) = journalEntries s"
  "archivedFiles (loadAppointments js st s) = archivedFiles s"
  "appointments (loadAppointments js st s) =
     loadedAlone (parseAppointments js) (st ''appointments'') (appointments s)"
  "console (loadAppointments js st s) =
     (if corruptBlob (parseAppointments js) (st ''appointments'')
      then console s @ [''Failed to load data from localStorage''] else console s)"
  by (simp_all add: loadAppointments_def loadFailed_def corruptBlob_def loadedAlone_def Let_def
      split: option.splits)

lemma loadArchivedFiles_fields:
  "medications (loadArchivedFiles js st s) = medications s"
  "journalEntries (loadArchivedFiles js st s) = journalEntries s"
  "archivedFiles (loadArchivedFiles js st s) =
     loadedAlone (parseArchivedFiles js) (st ''archivedFiles'') (archivedFiles s)"
  "appointments (loadArchivedFiles js st s) =
     (if corruptBlob (parseArchivedFiles js) (st ''archivedFiles'') then appointments s
      else loadedAlone (parseAppointments js) (st ''appointments'') (appointments s))"
  "console (loadArchivedFiles js st s) =
     (if corruptBlob (parseArchivedFiles js) (st ''archivedFiles'')
         \<or> corruptBlob (parseAppointments js) (st ''appointments'')
      then console s @ [''Failed to load data from localStorage''] else console s)"
  by (simp_all add: loadArchivedFiles_def loadAppointments_fields loadFailed_def corruptBlob_def
      loadedAlone_def Let_def split: option.splits)

lemma loadJournalEntries_fields:
  "medications (loadJournalEntries js st s) = medications s"
  "journalEntries (loadJournalEntries js st s) =
     loadedAlone (parseJournalEntries js) (st ''journalEntries'') (journalEntries s)"
  "archivedFiles (loadJournalEntries js st s) =
     (if corruptBlob (parseJournalEntries js) (st ''journalEntries'') then archivedFiles s
      else loadedAlone (parseArchivedFiles js) (st ''archivedFiles'') (archivedFiles s))"
  "appointments (loadJournalEntries js st s) =
     (if corruptBlob (parseJournalEntries js) (st ''journalEntries'')
         \<or> corruptBlob (parseArchivedFiles js) (st ''archivedFiles'') then appointments s
      else loadedAlone (parseAppointments js) (st ''appointments'') (appointments s))"
  "console (loadJournalEntries js st s) =
     (if corruptBlob (parseJournalEntries js) (st ''journalEntries'')
         \<or> corruptBlob (parseArchivedFiles js) (st ''archivedFiles'')
         \<or> corruptBlob (parseAppointments js) (st ''appointments'')
      then console s @ [''Failed to load data from localStorage''] else console s)"
  by (simp_all add: loadJournalEntries_def loadArchivedFiles_fields loadFailed_def
      corruptBlob_def loadedAlone_def Let_def split: option.splits)

lemma loadData_fields:
  "medications (loadData js st s) =
     loadedAlone (parseMedications js) (st ''medications'') (medications s)
   \<and> journalEntries (loadData js st s) =
       (if corruptBlob (parseMedications js) (st ''medications'') then journalEntries s
        else loadedAlone (parseJournalEntries js) (st ''journalEntries'') (journalEntries s))
   \<and> archivedFiles (loadData js st s) =
       (if corruptBlob (parseMedications js) (st ''medications'')
           \<or> corruptBlob (parseJournalEntries js) (st ''journalEntries'') then archivedFiles s
        else loadedAlone (parseArchivedFiles js) (st ''archivedFiles'') (archivedFiles s))
   \<and> appointments (loadData js st s) =
       (if corruptBlob (parseMedications js) (st ''medications'')
           \<or> corruptBlob (parseJournalEntries js) (st ''journalEntries'')
           \<or> corruptBlob (parseArchivedFiles js) (st ''archivedFiles'') then appointments s
        else loadedAlone (parseAppointments js) (st ''appointments'') (appointments s))
   \<and> console (loadData js st s) =
       (if corruptBlob (parseMedications js) (st ''medications'')
           \<or> corruptBlob (parseJournalEntries js) (st ''journalEntries'')
           \<or> corruptBlob (parseArchivedFiles js) (st ''archivedFiles'')
           \<or> corruptBlob (parseAppointments js) (st ''appointments'')
        then console s @ [''Failed to load data from localStorage''] else console s)"
proof -
  have m: "medications (loadData js st s) =
     loadedAlone (parseMedications js) (st ''medications'') (medications s)"
    by (simp add: loadData_def loadJournalEntries_fields(1) loadFailed_def loadedAlone_def Let_def
        split: option.splits)
  have j: "journalEntries (loadData js st s) =
       (if corruptBlob (parseMedications js) (st ''medications'') then journalEntries s
        else loadedAlone (parseJournalEntries js) (st ''journalEntries'') (journalEntries s))"
    by (simp add: loadData_def loadJournalEntries_fields(2) loadFailed_def corruptBlob_def Let_def
        split: option.splits)
  have f: "archivedFiles (loadData js st s) =
       (if corruptBlob (parseMedications js) (st ''medications'')
           \<or> corruptBlob (parseJournalEntries js) (st ''journalEntries'') then archivedFiles s
        else loadedAlone (parseArchivedFiles js) (st ''archivedFiles'') (archivedFiles s))"
    by (simp add: loadData_def loadJournalEntries_fields(3) loadFailed_def
        corruptBlob_def [of "parseMedications js"] Let_def split: option.splits)
  have a: "appointments (loadData js st s) =
       (if corruptBlob (parseMedications js) (st ''medications'')
           \<or> corruptBlob (parseJournalEntries js) (st ''journalEntries'')
           \<or> corruptBlob (parseArchivedFiles js) (st ''archivedFiles'') then appointments s
        else loadedAlone (parseAppointments js) (st ''appointments'') (appointments s))"
    by (simp add: loadData_def loadJournalEntries_fields(4) loadFailed_def
        corruptBlob_def [of "parseMedications js"] Let_def split: option.splits)
  have c: "console (loadData js st s) =
       (if corruptBlob (parseMedications js) (st ''medications'')
           \<or> corruptBlob (parseJournalEntries js) (st ''journalEntries'')
           \<or> corruptBlob (parseArchivedFiles js) (st ''archivedFiles'')
           \<or> corruptBlob (parseAppointments js) (st ''appointments'')
        then console s @ [''Failed to load data from localStorage''] else console s)"
    by (simp add: loadData_def loadJournalEntries_fields(5) loadFailed_def
        corruptBlob_def [of "parseMedications js"] Let_def split: option.splits)
  from m j f a c show ?thesis by blast
qed

lemma storageBadMedications_keys:
  "storageBadMedications ''medications'' = Some ''[M''"
  "storageBadMedications ''journalEntries'' = Some ''[J]''"
  "storageBadMedications ''archivedFiles'' = Some ''[F]''"
  "storageBadMedications ''appointments'' = Some ''[A]''"
  by (simp_all add: storageBadMedications_def)

lemma storageBadAppointments_keys:
  "storageBadAppointments ''medications'' = Some ''[M]''"
  "storageBadAppointments ''journalEntries'' = Some ''[J]''"
  "storageBadAppointments ''archivedFiles'' = Some ''[F]''"
  "storageBadAppointments ''appointments'' = Some ''[A''"
  by (simp_all add: storageBadAppointments_def)

lemma json0_parses:
  "parseMedications json0 ''[M]'' = Some [med0]" "parseMedications json0 ''[M'' = None"
  "parseJournalEntries json0 ''[J]'' = Some [je0]"
  "parseArchivedFiles json0 ''[F]'' = Some [af0]"
  "parseAppointments json0 ''[A]'' = Some [appt0]" "parseAppointments json0 ''[A'' = None"
  by (simp_all add: json0_def)

text \<open>
  C3, as stated, fails: with a corrupt medications blob and three valid other blobs the
  journal entries, archived files and appointments are not loaded.
\<close>

theorem loadData_one_corrupt_counterexample:
  "corruptBlob (parseMedications json0) (storageBadMedications ''medications'')
   \<and> loadedAlone (parseJournalEntries json0) (storageBadMedications ''journalEntries'')
         (journalEntries initialState) = [je0]
   \<and> loadedAlone (parseArchivedFiles json0) (storageBadMedications ''archivedFiles'')
         (archivedFiles initialState) = [af0]
   \<and> loadedAlone (parseAppointments json0) (storageBadMedications ''appointments'')
         (appointments initialState) = [appt0]
   \<and> journalEntries (loadData json0 storageBadMedications initialState) = []
   \<and> archivedFiles (loadData json0 storageBadMedications initialState) = []
   \<and> appointments (loadData json0 storageBadMedications initialState) = []
   \<and> journalEntries (loadData json0 storageBadMedications initialState) \<noteq> [je0]"
proof -
  have c: "corruptBlob (parseMedications json0) (storageBadMedications ''medications'')"
    by (simp add: corruptBlob_def truthy_def storageBadMedications_keys json0_parses)
  have i: "journalEntries initialState = []" "archivedFiles initialState = []"
    "appointments initialState = []"
    by (simp_all add: initialState_def)
  show ?thesis
    using c i loadData_fields [of json0 storageBadMedications initialState]
    by (simp add: loadedAlone_def truthy_def storageBadMedications_keys json0_parses)
qed

text \<open>
  C3, amended. The four keys are read in the order medications, journalEntries,
  archivedFiles, appointments inside one failure domain. An absent (or empty) key is
  skipped and the others load as if alone. A corrupt blob ends the load at its key: the
  keys read before it are loaded, its own collection and those of the later keys keep
  their contents, and one line is logged; nothing is thrown. So with exactly one key
  corrupt the other three load only when it is the last one, appointments.
\<close>

theorem loadData_failure_domains:
  "medications (loadData js st s) =
     loadedAlone (parseMedications js) (st ''medications'') (medications s)
   \<and> journalEntries (loadData js st s) =
       (if corruptBlob (parseMedications js) (st ''medications'') then journalEntries s
        else loadedAlone (parseJournalEntries js) (st ''journalEntries'') (journalEntries s))
   \<and> archivedFiles (loadData js st s) =
       (if corruptBlob (parseMedications js) (st ''medications'')
           \<or> corruptBlob (parseJournalEntries js) (st ''journalEntries'') then archivedFiles s
        else loadedAlone (parseArchivedFiles js) (st ''archivedFiles'') (archivedFiles s))
   \<and> appointments (loadData js st s) =
       (if corruptBlob (parseMedications js) (st ''medications'')
           \<or> corruptBlob (parseJournalEntries js) (st ''journalEntries'')
           \<or> corruptBlob (parseArchivedFiles js) (st ''archivedFiles'') then appointments s
        else loadedAlone (parseAppointments js) (st ''appointments'') (appointments s))
   \<and> console (loadData js st s) =
       (if corruptBlob (parseMedications js) (st ''medications'')
           \<or> corruptBlob (parseJournalEntries js) (st ''journalEntries'')
           \<or> corruptBlob (parseArchivedFiles js) (st ''archivedFiles'')
           \<or> corruptBlob (parseAppointments js) (st ''appointments'')
        then console s @ [''Failed to load data from localStorage''] else console s)"
  by (rule loadData_fields)

theorem loadData_failure_domains_witness:
  "corruptBlob (parseAppointments json0) (storageBadAppointments ''appointments'')
   \<and> medications (loadData json0 storageBadAppointments initialState) = [med0]
   \<and> journalEntries (loadData json0 storageBadAppointments initialState) = [je0]
   \<and> archivedFiles (loadData json0 storageBadAppointments initialState) = [af0]
   \<and> appointments (loadData json0 storageBadAppointments initialState) = []
   \<and> console (loadData json0 storageBadAppointments initialState)
       = [''Failed to load data from localStorage'']"
proof -
  have i: "appointments initialState = []" "console initialState = []"
    by (simp_all add: initialState_def)
  show ?thesis
    using i loadData_failure_domains [of json0 storageBadAppointments initialState]
    by (simp add: corruptBlob_def loadedAlone_def truthy_def storageBadAppointments_keys
        json0_parses)
qed

section \<open>The medication poll\<close>

lemma showNotification_cases:
  "showNotification throws title options s = Returned s
   \<or> showNotification throws title options s
        = Returned (s\<lparr>notifications := notifications s @ [(title, options)]\<rparr>)
   \<or> showNotification throws title options s = Threw TypeError s"
  by (simp add: showNotification_def new_Notification_def)

lemma showNotification_returned:
  "returned (showNotification throws title options s)
   = (permission s \<noteq> Granted \<or> \<not> throws title options)"
  by (simp add: showNotification_def new_Notification_def)

lemma showNotification_frame:
  "permission (state_of (showNotification throws title options s)) = permission s"
  "medications (state_of (showNotification throws title options s)) = medications s"
  "notifiedIds (state_of (showNotification throws title options s)) = notifiedIds s"
  "appointments (state_of (showNotification throws title options s)) = appointments s"
  "showCalls (state_of (showNotification throws title options s)) = showCalls s"
  by (simp_all add: showNotification_def new_Notification_def)

lemma notifyMedications_frame:
  "permission (state_of (notifyMedications throws meds s)) = permission s
   \<and> medications (state_of (notifyMedications throws meds s)) = medications s
   \<and> notifiedIds (state_of (notifyMedications throws meds s)) = notifiedIds s
   \<and> appointments (state_of (notifyMedications throws meds s)) = appointments s"
proof (induction meds arbitrary: s)
  case Nil
  show ?case by simp
next
  case (Cons med rest)
  let ?s1 = "s\<lparr>showCalls := showCalls s @ [ForMedication (med_id med)]\<rparr>"
  show ?case
  proof (cases "showNotification throws medicationTitle (Some (medicationOptions med)) ?s1")
    case (Returned s')
    with showNotification_frame [of throws medicationTitle "Some (medicationOptions med)" ?s1]
    have "permission s' = permission s" "medications s' = medications s"
      "notifiedIds s' = notifiedIds s" "appointments s' = appointments s"
      by simp_all
    with Returned Cons.IH [of s'] show ?thesis by simp
  next
    case (Threw e s')
    with showNotification_frame [of throws medicationTitle "Some (medicationOptions med)" ?s1]
    show ?thesis by simp
  qed
qed

text \<open>When every call returns, the loop makes one call per medication, in order.\<close>

lemma notifyMedications_all:
  assumes "permission s \<noteq> Granted
           \<or> (\<forall>med \<in> set meds. \<not> throws medicationTitle (Some (medicationOptions med)))"
  shows "returned (notifyMedications throws meds s)
         \<and> showCalls (state_of (notifyMedications throws meds s))
             = showCalls s @ map (\<lambda>med. ForMedication (med_id med)) meds"
  using assms
proof (induction meds arbitrary: s)
  case Nil
  show ?case by simp
next
  case (Cons med rest)
  let ?s1 = "s\<lparr>showCalls := showCalls s @ [ForMedication (med_id med)]\<rparr>"
  from Cons.prems
  have r: "returned (showNotification throws medicationTitle (Some (medicationOptions med)) ?s1)"
    by (auto simp: showNotification_returned)
  then obtain s' where
    s': "showNotification throws medicationTitle (Some (medicationOptions med)) ?s1 = Returned s'"
    by (cases "showNotification throws medicationTitle (Some (medicationOptions med)) ?s1") auto
  with showNotification_frame [of throws medicationTitle "Some (medicationOptions med)" ?s1]
  have f: "permission s' = permission s"
    "showCalls s' = showCalls s @ [ForMedication (med_id med)]"
    by simp_all
  from Cons.prems f have "permission s' \<noteq> Granted
      \<or> (\<forall>m \<in> set rest. \<not> throws medicationTitle (Some (medicationOptions m)))"
    by auto
  from Cons.IH [OF this] s' f show ?case by simp
qed

text \<open>When a call throws, the loop ends there with an exception.\<close>

lemma notifyMedications_throws:
  assumes "permission s = Granted"
    and "\<exists>med \<in> set meds. throws medicationTitle (Some (medicationOptions med))"
  shows "\<not> returned (notifyMedications throws meds s)"
  using assms
proof (induction meds arbitrary: s)
  case Nil
  then show ?case by simp
next
  case (Cons med rest)
  let ?s1 = "s\<lparr>showCalls := showCalls s @ [ForMedication (med_id med)]\<rparr>"
  show ?case
  proof (cases "showNotification throws medicationTitle (Some (medicationOptions med)) ?s1")
    case (Threw e s')
    then show ?thesis by simp
  next
    case (Returned s')
    with showNotification_returned [of throws medicationTitle "Some (medicationOptions med)" ?s1]
      Cons.prems
    have nt: "\<not> throws medicationTitle (Some (medicationOptions med))"
      by simp
    with Cons.prems have ex: "\<exists>m \<in> set rest. throws medicationTitle (Some (medicationOptions m))"
      by auto
    from Returned showNotification_frame(1) [of throws medicationTitle "Some (medicationOptions med)" ?s1]
      Cons.prems
    have "permission s' = Granted" by simp
    from Cons.IH [OF this ex] Returned show ?thesis by simp
  qed
qed

text \<open>In any case the calls made are for medications of the list, each at most as often as it occurs.\<close>

lemma notifyMedications_calls:
  "\<exists>k \<le> length meds.
     showCalls (state_of (notifyMedications throws meds s))
       = showCalls s @ map (\<lambda>med. ForMedication (med_id med)) (take k meds)"
proof (induction meds arbitrary: s)
  case Nil
  show ?case by simp
next
  case (Cons med rest)
  let ?s1 = "s\<lparr>showCalls := showCalls s @ [ForMedication (med_id med)]\<rparr>"
  show ?case
  proof (cases "showNotification throws medicationTitle (Some (medicationOptions med)) ?s1")
    case (Threw e s')
    with showNotification_frame(5) [of throws medicationTitle "Some (medicationOptions med)" ?s1]
    have "showCalls (state_of (notifyMedications throws (med # rest) s))
        = showCalls s @ map (\<lambda>med. ForMedication (med_id med)) (take 1 (med # rest))"
      by simp
    then show ?thesis by (intro exI [of _ 1]) simp
  next
    case (Returned s')
    with showNotification_frame(5) [of throws medicationTitle "Some (medicationOptions med)" ?s1]
    have c: "showCalls s' = showCalls s @ [ForMedication (med_id med)]" by simp
    from Cons.IH [of s'] obtain k where k: "k \<le> length rest"
      "showCalls (state_of (notifyMedications throws rest s'))
         = showCalls s' @ map (\<lambda>med. ForMedication (med_id med)) (take k rest)"
      by blast
    with Returned c
    have "showCalls (state_of (notifyMedications throws (med # rest) s))
        = showCalls s @ map (\<lambda>med. ForMedication (med_id med)) (take (Suc k) (med # rest))"
      by simp
    with k(1) show ?thesis by (intro exI [of _ "Suc k"]) simp
  qed
qed

lemma medicationTick_frame:
  "permission (state_of (medicationTick throws now s)) = permission s"
  "medications (state_of (medicationTick throws now s)) = medications s"
  "appointments (state_of (medicationTick throws now s)) = appointments s"
  using notifyMedications_frame [of throws "dueMedications now s" s]
  by (cases "notifyMedications throws (dueMedications now s) s";
      simp add: medicationTick_def Let_def)+

lemma medicationTick_returned:
  "returned (medicationTick throws now s)
   = (permission s \<noteq> Granted
      \<or> (\<forall>med \<in> set (dueMedications now s).
            \<not> throws medicationTitle (Some (medicationOptions med))))"
proof (cases "permission s \<noteq> Granted
      \<or> (\<forall>med \<in> set (dueMedications now s).
            \<not> throws medicationTitle (Some (medicationOptions med)))")
  case True
  from notifyMedications_all [of s "dueMedications now s" throws, OF True]
  have "returned (notifyMedications throws (dueMedications now s) s)" by simp
  then show ?thesis using True
    by (cases "notifyMedications throws (dueMedications now s) s";
        simp add: medicationTick_def Let_def)
next
  case False
  then have "permission s = Granted"
    and "\<exists>med \<in> set (dueMedications now s).
           throws medicationTitle (Some (medicationOptions med))"
    by auto
  from notifyMedications_throws [of s "dueMedications now s" throws, OF this]
  have n: "\<not> returned (notifyMedications throws (dueMedications now s) s)" .
  from False have "dueMedications now s \<noteq> []" by auto
  with n False show ?thesis
    by (cases "notifyMedications throws (dueMedications now s) s";
        simp add: medicationTick_def Let_def)
qed

lemma medicationTick_notifiedIds:
  "notifiedIds (state_of (medicationTick throws now s))
   = (if returned (medicationTick throws now s)
      then notifiedIds s \<union> set (map med_id (dueMedications now s))
      else notifiedIds s)"
  using notifyMedications_frame [of throws "dueMedications now s" s]
  by (cases "notifyMedications throws (dueMedications now s) s";
      simp add: medicationTick_def Let_def)

lemma medicationTick_calls:
  "\<exists>k \<le> length (dueMedications now s).
     (returned (medicationTick throws now s) \<longrightarrow> k = length (dueMedications now s))
     \<and> showCalls (state_of (medicationTick throws now s))
         = showCalls s @ map (\<lambda>med. ForMedication (med_id med)) (take k (dueMedications now s))"
proof (cases "returned (medicationTick throws now s)")
  case True
  then have "permission s \<noteq> Granted
      \<or> (\<forall>med \<in> set (dueMedications now s).
            \<not> throws medicationTitle (Some (medicationOptions med)))"
    by (simp add: medicationTick_returned)
  from notifyMedications_all [of s "dueMedications now s" throws, OF this]
  have "showCalls (state_of (medicationTick throws now s))
         = showCalls s @ map (\<lambda>med. ForMedication (med_id med)) (dueMedications now s)"
    by (cases "notifyMedications throws (dueMedications now s) s";
        simp add: medicationTick_def Let_def)
  then show ?thesis
    by (intro exI [of _ "length (dueMedications now s)"]) simp
next
  case False
  from notifyMedications_calls [of "dueMedications now s" throws s]
  obtain k where k: "k \<le> length (dueMedications now s)"
    "showCalls (state_of (notifyMedications throws (dueMedications now s) s))
       = showCalls s @ map (\<lambda>med. ForMedication (med_id med)) (take k (dueMedications now s))"
    by blast
  have "showCalls (state_of (medicationTick throws now s))
      = showCalls (state_of (notifyMedications throws (dueMedications now s) s))"
    by (cases "notifyMedications throws (dueMedications now s) s";
        cases "dueMedications now s"; simp add: medicationTick_def Let_def)
  with k False show ?thesis by (intro exI [of _ k]) simp
qed

lemma due_afternoon:
  "isMedicationDue med0 afternoon" "isMedicationDue med2 afternoon"
  by (simp_all add: isMedicationDue_def med0_def med2_def afternoon_def numberAt_def js_Number_def
      isDigit_def decimal_def digitVal_def setHours_def date_gt_def msPerDay_def msPerHour_def
      msPerMinute_def)

lemma dueMedications_state2: "dueMedications afternoon state2 = [med0, med2]"
  by (simp add: dueMedications_def state2_def due_afternoon)

lemma throwsOnAmoxicilina_simps:
  "\<not> throwsOnAmoxicilina medicationTitle (Some (medicationOptions med0))"
  "throwsOnAmoxicilina medicationTitle (Some (medicationOptions med2))"
  by (simp_all add: throwsOnAmoxicilina_def medicationOptions_def med0_def med2_def)

lemma medicationTick_state2:
  "medicationTick throwsOnAmoxicilina afternoon state2
   = Threw TypeError
       (state2\<lparr>showCalls := [ForMedication ''id_1'', ForMedication ''id_5''],
               notifications := [(medicationTitle, Some (medicationOptions med0))]\<rparr>)"
  by (simp add: medicationTick_def dueMedications_state2 showNotification_def new_Notification_def
      throwsOnAmoxicilina_simps)
    (simp add: state2_def med0_def med2_def)

section \<open>The appointment poll\<close>

lemma notifyAppointments_frame:
  "permission (state_of (notifyAppointments throws appts s)) = permission s
   \<and> medications (state_of (notifyAppointments throws appts s)) = medications s
   \<and> notifiedIds (state_of (notifyAppointments throws appts s)) = notifiedIds s
   \<and> appointments (state_of (notifyAppointments throws appts s)) = appointments s"
proof (induction appts arbitrary: s)
  case Nil
  show ?case by simp
next
  case (Cons appt rest)
  let ?s1 = "s\<lparr>showCalls := showCalls s @ [ForAppointment (appt_id appt)]\<rparr>"
  show ?case
  proof (cases "showNotification throws appointmentTitle (Some (appointmentOptions appt)) ?s1")
    case (Returned s')
    with showNotification_frame [of throws appointmentTitle "Some (appointmentOptions appt)" ?s1]
    have "permission s' = permission s" "medications s' = medications s"
      "notifiedIds s' = notifiedIds s" "appointments s' = appointments s"
      by simp_all
    with Returned Cons.IH [of s'] show ?thesis by simp
  next
    case (Threw e s')
    with showNotification_frame [of throws appointmentTitle "Some (appointmentOptions appt)" ?s1]
    show ?thesis by simp
  qed
qed

text \<open>When every call returns, the loop makes one call per appointment, in order.\<close>

lemma notifyAppointments_all:
  assumes "permission s \<noteq> Granted
           \<or> (\<forall>appt \<in> set appts. \<not> throws appointmentTitle (Some (appointmentOptions appt)))"
  shows "returned (notifyAppointments throws appts s)
         \<and> showCalls (state_of (notifyAppointments throws appts s))
             = showCalls s @ map (\<lambda>appt. ForAppointment (appt_id appt)) appts"
  using assms
proof (induction appts arbitrary: s)
  case Nil
  show ?case by simp
next
  case (Cons appt rest)
  let ?s1 = "s\<lparr>showCalls := showCalls s @ [ForAppointment (appt_id appt)]\<rparr>"
  from Cons.prems
  have r: "returned (showNotification throws appointmentTitle (Some (appointmentOptions appt)) ?s1)"
    by (auto simp: showNotification_returned)
  then obtain s' where
    s': "showNotification throws appointmentTitle (Some (appointmentOptions appt)) ?s1 = Returned s'"
    by (cases "showNotification throws appointmentTitle (Some (appointmentOptions appt)) ?s1") auto
  with showNotification_frame [of throws appointmentTitle "Some (appointmentOptions appt)" ?s1]
  have f: "permission s' = permission s"
    "showCalls s' = showCalls s @ [ForAppointment (appt_id appt)]"
    by simp_all
  from Cons.prems f have "permission s' \<noteq> Granted
      \<or> (\<forall>m \<in> set rest. \<not> throws appointmentTitle (Some (appointmentOptions m)))"
    by auto
  from Cons.IH [OF this] s' f show ?case by simp
qed

text \<open>When a call throws, the loop ends there with an exception.\<close>

lemma notifyAppointments_throws:
  assumes "permission s = Granted"
    and "\<exists>appt \<in> set appts. throws appointmentTitle (Some (appointmentOptions appt))"
  shows "\<not> returned (notifyAppointments throws appts s)"
  using assms
proof (induction appts arbitrary: s)
  case Nil
  then show ?case by simp
next
  case (Cons appt rest)
  let ?s1 = "s\<lparr>showCalls := showCalls s @ [ForAppointment (appt_id appt)]\<rparr>"
  show ?case
  proof (cases "showNotification throws appointmentTitle (Some (appointmentOptions appt)) ?s1")
    case (Threw e s')
    then show ?thesis by simp
  next
    case (Returned s')
    with showNotification_returned [of throws appointmentTitle "Some (appointmentOptions appt)" ?s1]
      Cons.prems
    have nt: "\<not> throws appointmentTitle (Some (appointmentOptions appt))"
      by simp
    with Cons.prems have ex: "\<exists>m \<in> set rest. throws appointmentTitle (Some (appointmentOptions m))"
      by auto
    from Returned showNotification_frame(1) [of throws appointmentTitle "Some (appointmentOptions appt)" ?s1]
      Cons.prems
    have "permission s' = Granted" by simp
    from Cons.IH [OF this ex] Returned show ?thesis by simp
  qed
qed

text \<open>In any case the calls made are for appointments of the list, each at most as often as it occurs.\<close>

lemma notifyAppointments_calls:
  "\<exists>k \<le> length appts.
     showCalls (state_of (notifyAppointments throws appts s))
       = showCalls s @ map (\<lambda>appt. ForAppointment (appt_id appt)) (take k appts)"
proof (induction appts arbitrary: s)
  case Nil
  show ?case by simp
next
  case (Cons appt rest)
  let ?s1 = "s\<lparr>showCalls := showCalls s @ [ForAppointment (appt_id appt)]\<rparr>"
  show ?case
  proof (cases "showNotification throws appointmentTitle (Some (appointmentOptions appt)) ?s1")
    case (Threw e s')
    with showNotification_frame(5) [of throws appointmentTitle "Some (appointmentOptions appt)" ?s1]
    have "showCalls (state_of (notifyAppointments throws (appt # rest) s))
        = showCalls s @ map (\<lambda>appt. ForAppointment (appt_id appt)) (take 1 (appt # rest))"
      by simp
    then show ?thesis by (intro exI [of _ 1]) simp
  next
    case (Returned s')
    with showNotification_frame(5) [of throws appointmentTitle "Some (appointmentOptions appt)" ?s1]
    have c: "showCalls s' = showCalls s @ [ForAppointment (appt_id appt)]" by simp
    from Cons.IH [of s'] obtain k where k: "k \<le> length rest"
      "showCalls (state_of (notifyAppointments throws rest s'))
         = showCalls s' @ map (\<lambda>appt. ForAppointment (appt_id appt)) (take k rest)"
      by blast
    with Returned c
    have "showCalls (state_of (notifyAppointments throws (appt # rest) s))
        = showCalls s @ map (\<lambda>appt. ForAppointment (appt_id appt)) (take (Suc k) (appt # rest))"
      by simp
    with k(1) show ?thesis by (intro exI [of _ "Suc k"]) simp
  qed
qed

lemma appointmentTick_frame:
  "permission (state_of (appointmentTick throws now s)) = permission s"
  "medications (state_of (appointmentTick throws now s)) = medications s"
  "notifiedIds (state_of (appointmentTick throws now s)) = notifiedIds s"
  using notifyAppointments_frame [of throws "upcomingAppointments now s" s]
  by (cases "notifyAppointments throws (upcomingAppointments now s) s";
      simp add: appointmentTick_def Let_def)+

lemma appointmentTick_returned:
  "returned (appointmentTick throws now s)
   = (permission s \<noteq> Granted
      \<or> (\<forall>appt \<in> set (upcomingAppointments now s).
            \<not> throws appointmentTitle (Some (appointmentOptions appt))))"
proof (cases "permission s \<noteq> Granted
      \<or> (\<forall>appt \<in> set (upcomingAppointments now s).
            \<not> throws appointmentTitle (Some (appointmentOptions appt)))")
  case True
  from notifyAppointments_all [of s "upcomingAppointments now s" throws, OF True]
  have "returned (notifyAppointments throws (upcomingAppointments now s) s)" by simp
  then show ?thesis using True
    by (cases "notifyAppointments throws (upcomingAppointments now s) s";
        simp add: appointmentTick_def Let_def)
next
  case False
  then have "permission s = Granted"
    and "\<exists>appt \<in> set (upcomingAppointments now s).
           throws appointmentTitle (Some (appointmentOptions appt))"
    by auto
  from notifyAppointments_throws [of s "upcomingAppointments now s" throws, OF this]
  have n: "\<not> returned (notifyAppointments throws (upcomingAppointments now s) s)" .
  from False have "upcomingAppointments now s \<noteq> []" by auto
  with n False show ?thesis
    by (cases "notifyAppointments throws (upcomingAppointments now s) s";
        simp add: appointmentTick_def Let_def)
qed

lemma appointmentTick_appointments:
  "appointments (state_of (appointmentTick throws now s))
   = (if returned (appointmentTick throws now s)
      then map (markNotified (upcomingAppointments now s)) (appointments s)
      else appointments s)"
proof (cases "upcomingAppointments now s = []")
  case True
  have "markNotified [] = (\<lambda>appt. appt)"
    by (simp add: markNotified_def fun_eq_iff)
  with True
  have "map (markNotified (upcomingAppointments now s)) (appointments s) = appointments s"
    by simp
  with True show ?thesis
    by (simp add: appointmentTick_def Let_def)
next
  case False
  with notifyAppointments_frame [of throws "upcomingAppointments now s" s] show ?thesis
    by (cases "notifyAppointments throws (upcomingAppointments now s) s")
      (simp_all add: appointmentTick_def Let_def markNotified_def)
qed

lemma appointmentTick_calls:
  "\<exists>k \<le> length (upcomingAppointments now s).
     (returned (appointmentTick throws now s) \<longrightarrow> k = length (upcomingAppointments now s))
     \<and> showCalls (state_of (appointmentTick throws now s))
         = showCalls s
           @ map (\<lambda>appt. ForAppointment (appt_id appt)) (take k (upcomingAppointments now s))"
proof (cases "returned (appointmentTick throws now s)")
  case True
  then have "permission s \<noteq> Granted
      \<or> (\<forall>appt \<in> set (upcomingAppointments now s).
            \<not> throws appointmentTitle (Some (appointmentOptions appt)))"
    by (simp add: appointmentTick_returned)
  from notifyAppointments_all [of s "upcomingAppointments now s" throws, OF this]
  have "showCalls (state_of (appointmentTick throws now s))
         = showCalls s
           @ map (\<lambda>appt. ForAppointment (appt_id appt)) (upcomingAppointments now s)"
    by (cases "notifyAppointments throws (upcomingAppointments now s) s";
        simp add: appointmentTick_def Let_def)
  then show ?thesis
    by (intro exI [of _ "length (upcomingAppointments now s)"]) simp
next
  case False
  from notifyAppointments_calls [of "upcomingAppointments now s" throws s]
  obtain k where k: "k \<le> length (upcomingAppointments now s)"
    "showCalls (state_of (notifyAppointments throws (upcomingAppointments now s) s))
       = showCalls s
         @ map (\<lambda>appt. ForAppointment (appt_id appt)) (take k (upcomingAppointments now s))"
    by blast
  have "showCalls (state_of (appointmentTick throws now s))
      = showCalls (state_of (notifyAppointments throws (upcomingAppointments now s) s))"
    by (cases "notifyAppointments throws (upcomingAppointments now s) s";
        cases "upcomingAppointments now s"; simp add: appointmentTick_def Let_def)
  with k False show ?thesis by (intro exI [of _ k]) simp
qed

lemma markNotified_notified: "notified appt \<Longrightarrow> markNotified upcoming appt = appt"
  by (simp add: markNotified_def)

lemma markNotified_keeps: "notified appt \<Longrightarrow> notified (markNotified upcoming appt)"
  by (simp add: markNotified_def)

lemma markNotified_id: "appt_id (markNotified upcoming appt) = appt_id appt"
  by (simp add: markNotified_def)

text \<open>With unique ids, the records found by id are the records matched.\<close>

lemma markNotified_distinct:
  assumes "distinct (map appt_id appts)" and "appt \<in> set appts"
  shows "markNotified (filter P appts) appt = (if P appt then appt\<lparr>notified := True\<rparr> else appt)"
proof -
  have "(\<exists>up \<in> set (filter P appts). appt_id up = appt_id appt) = P appt"
  proof
    assume "\<exists>up \<in> set (filter P appts). appt_id up = appt_id appt"
    then obtain up where up: "up \<in> set appts" "P up" "appt_id up = appt_id appt"
      by auto
    from assms(1) have "inj_on appt_id (set appts)"
      by (simp add: distinct_map)
    with up assms(2) have "up = appt"
      by (auto dest: inj_onD)
    with up show "P appt" by simp
  next
    assume "P appt"
    with assms(2) show "\<exists>up \<in> set (filter P appts). appt_id up = appt_id appt"
      by auto
  qed
  then show ?thesis
    by (auto simp: markNotified_def find_None_iff)
qed

section \<open>The notified-set update of a tick\<close>

text \<open>
  The loop, exactly: a call for each medication up to and including the first for which
  the constructor throws, and a notification for each medication before that one.
\<close>

lemma notifyMedications_granted:
  assumes "permission s = Granted"
  shows "notifyMedications throws meds s =
     (if \<forall>med \<in> set meds. \<not> throws medicationTitle (Some (medicationOptions med))
      then Returned
        (s\<lparr>showCalls := showCalls s @ map (\<lambda>med. ForMedication (med_id med)) meds,
           notifications := notifications s
             @ map (\<lambda>med. (medicationTitle, Some (medicationOptions med))) meds\<rparr>)
      else Threw TypeError
        (s\<lparr>showCalls := showCalls s @ map (\<lambda>med. ForMedication (med_id med))
              (take (Suc (length (takeWhile
                 (\<lambda>med. \<not> throws medicationTitle (Some (medicationOptions med))) meds))) meds),
           notifications := notifications s
             @ map (\<lambda>med. (medicationTitle, Some (medicationOptions med)))
                 (takeWhile
                    (\<lambda>med. \<not> throws medicationTitle (Some (medicationOptions med))) meds)\<rparr>))"
  using assms
proof (induction meds arbitrary: s)
  case Nil
  then show ?case by simp
next
  case (Cons med rest)
  let ?s1 = "s\<lparr>showCalls := showCalls s @ [ForMedication (med_id med)]\<rparr>"
  show ?case
  proof (cases "throws medicationTitle (Some (medicationOptions med))")
    case True
    with Cons.prems show ?thesis
      by (simp add: showNotification_def new_Notification_def)
  next
    case False
    let ?s2 = "?s1\<lparr>notifications := notifications ?s1
        @ [(medicationTitle, Some (medicationOptions med))]\<rparr>"
    from False Cons.prems
    have step: "showNotification throws medicationTitle (Some (medicationOptions med)) ?s1
        = Returned ?s2"
      by (simp add: showNotification_def new_Notification_def)
    from Cons.prems have "permission ?s2 = Granted" by simp
    from Cons.IH [OF this] step False show ?thesis
      by simp
  qed
qed

lemma notifyMedications_not_granted:
  assumes "permission s \<noteq> Granted"
  shows "notifyMedications throws meds s =
     Returned (s\<lparr>showCalls := showCalls s @ map (\<lambda>med. ForMedication (med_id med)) meds\<rparr>)"
  using assms
proof (induction meds arbitrary: s)
  case Nil
  then show ?case by simp
next
  case (Cons med rest)
  let ?s1 = "s\<lparr>showCalls := showCalls s @ [ForMedication (med_id med)]\<rparr>"
  from Cons.prems
  have step: "showNotification throws medicationTitle (Some (medicationOptions med)) ?s1
      = Returned ?s1"
    by (simp add: showNotification_def)
  from Cons.prems have "permission ?s1 \<noteq> Granted" by simp
  from Cons.IH [OF this] step show ?case
    by simp
qed

text \<open>
  C7, as stated, fails: two medications are matched, the constructor throws for the
  second, and the notified-set stays empty although the first was notified.
\<close>

theorem medicationTick_throw_counterexample:
  "permission state2 = Granted
   \<and> dueMedications afternoon state2 = [med0, med2]
   \<and> \<not> throwsOnAmoxicilina medicationTitle (Some (medicationOptions med0))
   \<and> throwsOnAmoxicilina medicationTitle (Some (medicationOptions med2))
   \<and> notifiedIds state2 \<union> set (map med_id (dueMedications afternoon state2))
       = {''id_1'', ''id_5''}
   \<and> notifications (state_of (medicationTick throwsOnAmoxicilina afternoon state2))
       = [(medicationTitle, Some (medicationOptions med0))]
   \<and> notifiedIds (state_of (medicationTick throwsOnAmoxicilina afternoon state2)) = {}"
proof -
  have "permission state2 = Granted" "notifiedIds state2 = {}"
    by (simp_all add: state2_def)
  moreover have "med_id med0 = ''id_1''" "med_id med2 = ''id_5''"
    by (simp_all add: med0_def med2_def)
  ultimately show ?thesis
    by (simp add: dueMedications_state2 throwsOnAmoxicilina_simps medicationTick_state2)
qed

text \<open>
  C7, amended. Within one medication poll tick the show operation is called for the
  matched medications in order, up to and including the first for which the constructor
  throws, and a notification is created for each call that returns. If every call
  returns (permission is not granted, or the constructor throws for none of the matched
  medications), all matched ids are then added to the notified-set in one batch:
  afterwards the set is exactly its previous contents plus every id matched at
  evaluation time, and nothing else of the state has changed. If the constructor throws
  for a matched medication, the tick ends there with that exception: the medications
  after it are not shown and the notified-set is left as it was.
\<close>

theorem medicationTick_set_update:
  "medicationTick throws now s =
     (if permission s \<noteq> Granted
         \<or> (\<forall>med \<in> set (dueMedications now s).
               \<not> throws medicationTitle (Some (medicationOptions med)))
      then Returned
        (s\<lparr>showCalls := showCalls s
             @ map (\<lambda>med. ForMedication (med_id med)) (dueMedications now s),
           notifications := notifications s
             @ (if permission s = Granted
                then map (\<lambda>med. (medicationTitle, Some (medicationOptions med)))
                       (dueMedications now s)
                else []),
           notifiedIds := notifiedIds s \<union> set (map med_id (dueMedications now s))\<rparr>)
      else Threw TypeError
        (s\<lparr>showCalls := showCalls s
             @ map (\<lambda>med. ForMedication (med_id med))
                 (take (Suc (length (takeWhile
                    (\<lambda>med. \<not> throws medicationTitle (Some (medicationOptions med)))
                    (dueMedications now s))))
                  (dueMedications now s)),
           notifications := notifications s
             @ map (\<lambda>med. (medicationTitle, Some (medicationOptions med)))
                 (takeWhile (\<lambda>med. \<not> throws medicationTitle (Some (medicationOptions med)))
                    (dueMedications now s))\<rparr>))
   \<and> returned (medicationTick throws now s)
       = (permission s \<noteq> Granted
          \<or> (\<forall>med \<in> set (dueMedications now s).
                \<not> throws medicationTitle (Some (medicationOptions med))))
   \<and> notifiedIds (state_of (medicationTick throws now s))
       = (if returned (medicationTick throws now s)
          then notifiedIds s \<union> set (map med_id (dueMedications now s))
          else notifiedIds s)"
proof -
  let ?due = "dueMedications now s"
  have exact: "medicationTick throws now s =
     (if permission s \<noteq> Granted
         \<or> (\<forall>med \<in> set ?due. \<not> throws medicationTitle (Some (medicationOptions med)))
      then Returned
        (s\<lparr>showCalls := showCalls s @ map (\<lambda>med. ForMedication (med_id med)) ?due,
           notifications := notifications s
             @ (if permission s = Granted
                then map (\<lambda>med. (medicationTitle, Some (medicationOptions med))) ?due
                else []),
           notifiedIds := notifiedIds s \<union> set (map med_id ?due)\<rparr>)
      else Threw TypeError
        (s\<lparr>showCalls := showCalls s
             @ map (\<lambda>med. ForMedication (med_id med))
                 (take (Suc (length (takeWhile
                    (\<lambda>med. \<not> throws medicationTitle (Some (medicationOptions med))) ?due)))
                  ?due),
           notifications := notifications s
             @ map (\<lambda>med. (medicationTitle, Some (medicationOptions med)))
                 (takeWhile (\<lambda>med. \<not> throws medicationTitle (Some (medicationOptions med)))
                    ?due)\<rparr>))"
  proof (cases "?due = []")
    case True
    then show ?thesis
      by (simp add: medicationTick_def)
  next
    case False
    show ?thesis
    proof (cases "permission s = Granted")
      case True
      from False notifyMedications_granted [OF True, of throws ?due] True show ?thesis
        by (simp add: medicationTick_def Let_def)
    next
      case ng: False
      from False notifyMedications_not_granted [OF ng, of throws ?due] ng show ?thesis
        by (simp add: medicationTick_def Let_def)
    qed
  qed
  from exact medicationTick_returned [of throws now s] medicationTick_notifiedIds [of throws now s]
  show ?thesis by blast
qed

theorem medicationTick_set_update_witness:
  "\<not> (\<exists>med \<in> set (dueMedications afternoon state2).
         neverThrows medicationTitle (Some (medicationOptions med)))
   \<and> medicationTick neverThrows afternoon state2
       = Returned
           (state2\<lparr>showCalls := [ForMedication ''id_1'', ForMedication ''id_5''],
                   notifications := [(medicationTitle, Some (medicationOptions med0)),
                                     (medicationTitle, Some (medicationOptions med2))],
                   notifiedIds := {''id_1'', ''id_5''}\<rparr>)
   \<and> permission state2 = Granted
   \<and> med2 \<in> set (dueMedications afternoon state2)
   \<and> throwsOnAmoxicilina medicationTitle (Some (medicationOptions med2))
   \<and> medicationTick throwsOnAmoxicilina afternoon state2
       = Threw TypeError
           (state2\<lparr>showCalls := [ForMedication ''id_1'', ForMedication ''id_5''],
                   notifications := [(medicationTitle, Some (medicationOptions med0))]\<rparr>)
   \<and> \<not> returned (medicationTick throwsOnAmoxicilina afternoon state2)
   \<and> notifiedIds (state_of (medicationTick throwsOnAmoxicilina afternoon state2)) = {}"
proof -
  have p: "permission state2 = Granted" "notifiedIds state2 = {}" "showCalls state2 = []"
    "notifications state2 = []"
    by (simp_all add: state2_def)
  have i: "med_id med0 = ''id_1''" "med_id med2 = ''id_5''"
    by (simp_all add: med0_def med2_def)
  have n: "\<not> (\<exists>med \<in> set (dueMedications afternoon state2).
         neverThrows medicationTitle (Some (medicationOptions med)))"
    by (simp add: neverThrows_def)
  have m: "med2 \<in> set (dueMedications afternoon state2)"
    "throwsOnAmoxicilina medicationTitle (Some (medicationOptions med2))"
    by (simp_all add: dueMedications_state2 throwsOnAmoxicilina_simps)
  have a: "medicationTick neverThrows afternoon state2
       = Returned
           (state2\<lparr>showCalls := [ForMedication ''id_1'', ForMedication ''id_5''],
                   notifications := [(medicationTitle, Some (medicationOptions med0)),
                                     (medicationTitle, Some (medicationOptions med2))],
                   notifiedIds := {''id_1'', ''id_5''}\<rparr>)"
    using medicationTick_set_update [of neverThrows afternoon state2] n p i
    by (simp add: dueMedications_state2)
  have b: "medicationTick throwsOnAmoxicilina afternoon state2
       = Threw TypeError
           (state2\<lparr>showCalls := [ForMedication ''id_1'', ForMedication ''id_5''],
                   notifications := [(medicationTitle, Some (medicationOptions med0))]\<rparr>)"
    using medicationTick_set_update [of throwsOnAmoxicilina afternoon state2] p i
    by (simp add: dueMedications_state2 throwsOnAmoxicilina_simps)
  from b p(2) have c: "\<not> returned (medicationTick throwsOnAmoxicilina afternoon state2)"
    "notifiedIds (state_of (medicationTick throwsOnAmoxicilina afternoon state2)) = {}"
    by simp_all
  from n a p(1) m b c show ?thesis
    by blast
qed

section \<open>Runs\<close>

lemma medicationPoll_frame:
  "permission (state_of (medicationPoll throws now s)) = permission s"
  "medications (state_of (medicationPoll throws now s)) = medications s"
  "appointments (state_of (medicationPoll throws now s)) = appointments s"
  by (simp_all add: medicationPoll_def medicationTick_frame)

lemma medicationPoll_calls:
  "\<exists>k \<le> length (dueMedications now s).
     showCalls (state_of (medicationPoll throws now s))
       = showCalls s @ map (\<lambda>med. ForMedication (med_id med)) (take k (dueMedications now s))"
proof (cases "permission s = Granted")
  case True
  with medicationTick_calls [of now s throws] show ?thesis
    by (auto simp: medicationPoll_def)
next
  case False
  then have "showCalls (state_of (medicationPoll throws now s))
      = showCalls s @ map (\<lambda>med. ForMedication (med_id med)) (take 0 (dueMedications now s))"
    by (simp add: medicationPoll_def)
  then show ?thesis by blast
qed

lemma appointmentPoll_frame:
  "permission (state_of (appointmentPoll throws now s)) = permission s"
  "medications (state_of (appointmentPoll throws now s)) = medications s"
  "notifiedIds (state_of (appointmentPoll throws now s)) = notifiedIds s"
  by (simp_all add: appointmentPoll_def appointmentTick_frame)

lemma appointmentPoll_calls:
  "\<exists>k \<le> length (upcomingAppointments now s).
     showCalls (state_of (appointmentPoll throws now s))
       = showCalls s
         @ map (\<lambda>appt. ForAppointment (appt_id appt)) (take k (upcomingAppointments now s))"
proof (cases "permission s = Granted")
  case True
  with appointmentTick_calls [of now s throws] show ?thesis
    by (auto simp: appointmentPoll_def)
next
  case False
  then have "showCalls (state_of (appointmentPoll throws now s))
      = showCalls s
        @ map (\<lambda>appt. ForAppointment (appt_id appt)) (take 0 (upcomingAppointments now s))"
    by (simp add: appointmentPoll_def)
  then show ?thesis by blast
qed

lemma appointmentPoll_appointments:
  "appointments (state_of (appointmentPoll throws now s)) = appointments s
   \<or> appointments (state_of (appointmentPoll throws now s))
       = map (markNotified (upcomingAppointments now s)) (appointments s)"
  by (simp add: appointmentPoll_def appointmentTick_appointments)

lemma mutator_frame:
  "showCalls (dailyReset s) = showCalls s"
  "showCalls (addMedication newId formState s) = showCalls s"
  "showCalls (toggleMedicationTaken i s) = showCalls s"
  "showCalls (deleteMedication i s) = showCalls s"
  "showCalls (addAppointment newId appointmentForm s) = showCalls s"
  "showCalls (deleteAppointment i s) = showCalls s"
  "notifiedIds (addMedication newId formState s) = notifiedIds s"
  "notifiedIds (toggleMedicationTaken i s) = notifiedIds s"
  "notifiedIds (deleteMedication i s) = notifiedIds s"
  "notifiedIds (addAppointment newId appointmentForm s) = notifiedIds s"
  "notifiedIds (deleteAppointment i s) = notifiedIds s"
  "medications (addAppointment newId appointmentForm s) = medications s"
  "medications (deleteAppointment i s) = medications s"
  "appointments (dailyReset s) = appointments s"
  "appointments (addMedication newId formState s) = appointments s"
  "appointments (toggleMedicationTaken i s) = appointments s"
  "appointments (deleteMedication i s) = appointments s"
  by (simp_all add: dailyReset_def addMedication_def toggleMedicationTaken_def
      deleteMedication_def handleCloseTooltip_def addAppointment_def deleteAppointment_def Let_def)

lemma mutator_medication_ids:
  "map med_id (medications (dailyReset s)) = map med_id (medications s)"
  "map med_id (medications (toggleMedicationTaken i s)) = map med_id (medications s)"
  "map med_id (medications (deleteMedication i s)) = filter (\<lambda>j. j \<noteq> i) (map med_id (medications s))"
  "map med_id (medications (addMedication newId formState s)) = map med_id (medications s)
   \<or> map med_id (medications (addMedication newId formState s))
       = map med_id (medications s) @ [newId]"
  by (simp_all add: dailyReset_def toggleMedicationTaken_def deleteMedication_def
      handleCloseTooltip_def addMedication_def Let_def comp_def filter_map if_distrib cong: if_cong)

text \<open>An event that is no poll makes no call; a poll makes calls of its own kind only.\<close>

lemma fire_calls:
  "\<exists>cs. showCalls (fire throws e s) = showCalls s @ cs
     \<and> (\<forall>i. ForMedication i \<in> set cs \<longrightarrow>
           (\<exists>now. e = MedicationPoll now \<and> i \<in> med_id ` set (dueMedications now s)))
     \<and> (\<forall>i. ForAppointment i \<in> set cs \<longrightarrow>
           (\<exists>now. e = AppointmentPoll now \<and> i \<in> appt_id ` set (upcomingAppointments now s)))"
proof (cases e)
  case (MedicationPoll now)
  from medicationPoll_calls [of now s throws] obtain k where
    "showCalls (state_of (medicationPoll throws now s))
       = showCalls s @ map (\<lambda>med. ForMedication (med_id med)) (take k (dueMedications now s))"
    by blast
  with MedicationPoll show ?thesis
    by (intro exI [of _ "map (\<lambda>med. ForMedication (med_id med)) (take k (dueMedications now s))"])
      (auto dest: in_set_takeD)
next
  case (AppointmentPoll now)
  from appointmentPoll_calls [of now s throws] obtain k where
    "showCalls (state_of (appointmentPoll throws now s))
       = showCalls s
         @ map (\<lambda>appt. ForAppointment (appt_id appt)) (take k (upcomingAppointments now s))"
    by blast
  with AppointmentPoll show ?thesis
    by (intro exI [of _ "map (\<lambda>appt. ForAppointment (appt_id appt))
          (take k (upcomingAppointments now s))"])
      (auto dest: in_set_takeD)
qed (simp_all add: mutator_frame)


lemma addedAppointmentIds_Cons:
  "set (addedAppointmentIds es) \<subseteq> set (addedAppointmentIds (e # es))"
  by (cases e) auto


lemma callsSince_append: "showCalls s' = showCalls s @ cs \<Longrightarrow> callsSince s s' = cs"
  by (simp add: callsSince_def)

subsection \<open>An id that is not in the medications\<close>



subsection \<open>An id whose appointments are all notified\<close>

lemma upcoming_not_notified:
  "appt \<in> set (upcomingAppointments now s) \<Longrightarrow> appt \<in> set (appointments s) \<and> \<not> notified appt"
  by (simp add: upcomingAppointments_def upcoming_iff)

lemma fire_notified_appointment:
  assumes "\<forall>a \<in> set (appointments s). appt_id a = i \<longrightarrow> notified a"
    and "i \<notin> set (addedAppointmentIds (e # es))"
  shows "\<forall>a \<in> set (appointments (fire throws e s)).
           appt_id a = i \<longrightarrow> notified a \<and> a \<in> set (appointments s)"
proof (cases e)
  case (AppointmentPoll now)
  have "notified b \<and> b \<in> set (appointments s)"
    if "b \<in> set (map (markNotified (upcomingAppointments now s)) (appointments s))"
      and "appt_id b = i" for b
  proof -
    from that(1) obtain a where a: "a \<in> set (appointments s)"
      "b = markNotified (upcomingAppointments now s) a"
      by auto
    with that(2) have "appt_id a = i" by (simp add: markNotified_id)
    with assms(1) a(1) have "notified a" by blast
    with a show ?thesis by (simp add: markNotified_notified)
  qed
  with assms(1) appointmentPoll_appointments [of throws now s] AppointmentPoll
  show ?thesis by auto
next
  case (AddAppointment newId appointmentForm)
  with assms(2) have "newId \<noteq> i" by auto
  with assms(1) AddAppointment show ?thesis
    by (auto simp: addAppointment_def Let_def)
next
  case (DeleteAppointment j)
  with assms(1) show ?thesis by (auto simp: deleteAppointment_def)
qed (use assms(1) in \<open>simp_all add: medicationPoll_frame mutator_frame\<close>)

lemma run_notified_appointment:
  assumes "\<forall>a \<in> set (appointments s). appt_id a = i \<longrightarrow> notified a"
    and "i \<notin> set (addedAppointmentIds es)"
  shows "\<exists>cs. showCalls (run throws es s) = showCalls s @ cs
           \<and> ForAppointment i \<notin> set cs
           \<and> (\<forall>a \<in> set (appointments (run throws es s)).
                 appt_id a = i \<longrightarrow> notified a \<and> a \<in> set (appointments s))"
  using assms
proof (induction es arbitrary: s)
  case Nil
  then show ?case by simp
next
  case (Cons e es)
  from fire_calls [of throws e s] obtain cs1 where
    cs1: "showCalls (fire throws e s) = showCalls s @ cs1"
    and m: "\<forall>j. ForAppointment j \<in> set cs1 \<longrightarrow>
           (\<exists>now. e = AppointmentPoll now \<and> j \<in> appt_id ` set (upcomingAppointments now s))"
    by blast
  have n1: "ForAppointment i \<notin> set cs1"
  proof
    assume "ForAppointment i \<in> set cs1"
    with m obtain now a where "a \<in> set (upcomingAppointments now s)" "appt_id a = i"
      by auto
    with upcoming_not_notified [of a now s] Cons.prems(1) show False by blast
  qed
  from fire_notified_appointment [OF Cons.prems]
  have k: "\<forall>a \<in> set (appointments (fire throws e s)).
           appt_id a = i \<longrightarrow> notified a \<and> a \<in> set (appointments s)" .
  then have k': "\<forall>a \<in> set (appointments (fire throws e s)). appt_id a = i \<longrightarrow> notified a"
    by blast
  from Cons.prems(2) addedAppointmentIds_Cons [of es e]
  have "i \<notin> set (addedAppointmentIds es)" by auto
  from Cons.IH [OF k' this] obtain cs2 where
    cs2: "showCalls (run throws es (fire throws e s)) = showCalls (fire throws e s) @ cs2"
    "ForAppointment i \<notin> set cs2"
    "\<forall>a \<in> set (appointments (run throws es (fire throws e s))).
        appt_id a = i \<longrightarrow> notified a \<and> a \<in> set (appointments (fire throws e s))"
    by blast
  with cs1 n1 k show ?case
    by (intro exI [of _ "cs1 @ cs2"]) auto
qed

subsection \<open>How often a medication is shown\<close>

lemma count_list_distinct:
  "distinct xs \<Longrightarrow> count_list xs x = (if x \<in> set xs then 1 else 0)"
  by (induction xs) auto

lemma count_ForMedication:
  "count_list (map (\<lambda>med. ForMedication (med_id med)) meds) (ForMedication i)
   = count_list (map med_id meds) i"
  by (induction meds) auto

lemma count_ForAppointment:
  "count_list (map (\<lambda>appt. ForAppointment (appt_id appt)) appts) (ForMedication i) = 0"
  by (induction appts) auto

lemma dueMedications_ids:
  "distinct (map med_id (medications s)) \<Longrightarrow> distinct (map med_id (dueMedications now s))"
  "set (map med_id (dueMedications now s)) \<inter> notifiedIds s = {}"
  by (auto simp: dueMedications_def distinct_map_filter)

text \<open>
  While the constructor does not throw, a call for a medication is paid for by its id
  entering the notified-set.
\<close>

lemma medicationPoll_budget:
  assumes "\<forall>title options. \<not> throws title options"
    and "distinct (map med_id (medications s))"
  shows "\<exists>cs. showCalls (state_of (medicationPoll throws now s)) = showCalls s @ cs
           \<and> count_list cs (ForMedication i)
               + (if i \<in> notifiedIds (state_of (medicationPoll throws now s)) then 0 else 1)
             \<le> (if i \<in> notifiedIds s then 0 else 1)"
proof (cases "permission s = Granted")
  case False
  then have "showCalls (state_of (medicationPoll throws now s)) = showCalls s @ []"
    "notifiedIds (state_of (medicationPoll throws now s)) = notifiedIds s"
    by (simp_all add: medicationPoll_def)
  then show ?thesis by (intro exI [of _ "[]"]) simp
next
  case True
  let ?due = "dueMedications now s"
  let ?s' = "state_of (medicationTick throws now s)"
  from assms(1) have r: "returned (medicationTick throws now s)"
    by (simp add: medicationTick_returned)
  with medicationTick_calls [of now s throws]
  have c: "showCalls ?s' = showCalls s @ map (\<lambda>med. ForMedication (med_id med)) ?due"
    by auto
  from r have n: "notifiedIds ?s' = notifiedIds s \<union> set (map med_id ?due)"
    by (simp add: medicationTick_notifiedIds)
  from dueMedications_ids(1) [OF assms(2), of now]
  have k: "count_list (map med_id ?due) i = (if i \<in> set (map med_id ?due) then 1 else 0)"
    by (rule count_list_distinct)
  have "count_list (map (\<lambda>med. ForMedication (med_id med)) ?due) (ForMedication i)
          + (if i \<in> notifiedIds ?s' then 0 else 1)
        \<le> (if i \<in> notifiedIds s then 0 else 1)"
    using dueMedications_ids(2) [of now s] n k
    by (auto simp: count_ForMedication)
  with c True show ?thesis
    by (intro exI [of _ "map (\<lambda>med. ForMedication (med_id med)) ?due"])
      (simp add: medicationPoll_def)
qed

lemma fire_budget:
  assumes "\<forall>title options. \<not> throws title options"
    and "distinct (map med_id (medications s))"
    and "e \<noteq> DailyReset"
  shows "\<exists>cs. showCalls (fire throws e s) = showCalls s @ cs
           \<and> count_list cs (ForMedication i)
               + (if i \<in> notifiedIds (fire throws e s) then 0 else 1)
             \<le> (if i \<in> notifiedIds s then 0 else 1)"
proof (cases e)
  case (MedicationPoll now)
  with medicationPoll_budget [OF assms(1,2), of now i] show ?thesis by simp
next
  case (AppointmentPoll now)
  from appointmentPoll_calls [of now s throws] obtain k where
    "showCalls (state_of (appointmentPoll throws now s))
       = showCalls s
         @ map (\<lambda>appt. ForAppointment (appt_id appt)) (take k (upcomingAppointments now s))"
    by blast
  with AppointmentPoll show ?thesis
    by (intro exI [of _ "map (\<lambda>appt. ForAppointment (appt_id appt))
          (take k (upcomingAppointments now s))"])
      (simp add: count_ForAppointment appointmentPoll_frame)
next
  case DailyReset
  with assms(3) show ?thesis by simp
qed (simp_all add: mutator_frame)

lemma fire_distinct_medications:
  assumes "distinct (map med_id (medications s) @ addedMedicationIds (e # es))"
  shows "distinct (map med_id (medications (fire throws e s)) @ addedMedicationIds es)"
proof (cases e)
  case (AddMedication newId formState)
  with assms
  have d: "distinct (map med_id (medications s) @ newId # addedMedicationIds es)"
    by simp
  from mutator_medication_ids(4) [of newId formState s]
  have "distinct (map med_id (medications (addMedication newId formState s))
          @ addedMedicationIds es)"
  proof
    assume eq: "map med_id (medications (addMedication newId formState s))
        = map med_id (medications s)"
    show ?thesis unfolding eq using d by simp
  next
    assume eq: "map med_id (medications (addMedication newId formState s))
        = map med_id (medications s) @ [newId]"
    show ?thesis unfolding eq using d by simp
  qed
  with AddMedication show ?thesis by simp
next
  case (DeleteMedication j)
  with assms
  have d: "distinct (map med_id (medications s) @ addedMedicationIds es)"
    by simp
  have "distinct (map med_id (medications (deleteMedication j s)) @ addedMedicationIds es)"
    unfolding mutator_medication_ids(3) using d by auto
  with DeleteMedication show ?thesis by simp
qed (use assms in \<open>simp_all add: medicationPoll_frame appointmentPoll_frame
      mutator_medication_ids mutator_frame\<close>)

lemma run_budget:
  assumes "\<forall>title options. \<not> throws title options"
    and "DailyReset \<notin> set es"
    and "distinct (map med_id (medications s) @ addedMedicationIds es)"
  shows "\<exists>cs. showCalls (run throws es s) = showCalls s @ cs
           \<and> count_list cs (ForMedication i)
               + (if i \<in> notifiedIds (run throws es s) then 0 else 1)
             \<le> (if i \<in> notifiedIds s then 0 else 1)"
  using assms(2,3)
proof (induction es arbitrary: s)
  case Nil
  then show ?case by simp
next
  case (Cons e es)
  from Cons.prems have e: "e \<noteq> DailyReset" and es: "DailyReset \<notin> set es"
    and d: "distinct (map med_id (medications s))"
    by auto
  from fire_budget [OF assms(1) d e, of i] obtain cs1 where
    cs1: "showCalls (fire throws e s) = showCalls s @ cs1"
    "count_list cs1 (ForMedication i) + (if i \<in> notifiedIds (fire throws e s) then 0 else 1)
       \<le> (if i \<in> notifiedIds s then 0 else 1)"
    by blast
  from Cons.IH [OF es fire_distinct_medications [OF Cons.prems(2)]] obtain cs2 where
    cs2: "showCalls (run throws es (fire throws e s)) = showCalls (fire throws e s) @ cs2"
    "count_list cs2 (ForMedication i)
       + (if i \<in> notifiedIds (run throws es (fire throws e s)) then 0 else 1)
       \<le> (if i \<in> notifiedIds (fire throws e s) then 0 else 1)"
    by blast
  from cs1 cs2 show ?case
    by (intro exI [of _ "cs1 @ cs2"]) (auto split: if_splits)
qed

section \<open>The dedup invariant\<close>

lemma due_later:
  "isMedicationDue med0 later" "isMedicationDue med2 later"
  by (simp_all add: isMedicationDue_def med0_def med2_def later_def afternoon_def numberAt_def
      js_Number_def isDigit_def decimal_def digitVal_def setHours_def date_gt_def msPerDay_def
      msPerHour_def msPerMinute_def)

lemma state2_fields:
  "permission state2 = Granted" "medications state2 = [med0, med2]" "notifiedIds state2 = {}"
  "showCalls state2 = []" "notifications state2 = []"
  by (simp_all add: state2_def)

lemma med_ids: "med_id med0 = ''id_1''" "med_id med1 = ''id_2''" "med_id med2 = ''id_5''"
  by (simp_all add: med0_def med1_def med2_def)

lemma medicationTick_throwing_twice:
  "run throwsOnAmoxicilina [MedicationPoll afternoon, MedicationPoll later] state2
   = state2\<lparr>showCalls := [ForMedication ''id_1'', ForMedication ''id_5'',
                            ForMedication ''id_1'', ForMedication ''id_5''],
            notifications := [(medicationTitle, Some (medicationOptions med0)),
                              (medicationTitle, Some (medicationOptions med0))]\<rparr>"
proof -
  let ?s1 = "state2\<lparr>showCalls := [ForMedication ''id_1'', ForMedication ''id_5''],
               notifications := [(medicationTitle, Some (medicationOptions med0))]\<rparr>"
  have first: "fire throwsOnAmoxicilina (MedicationPoll afternoon) state2 = ?s1"
    by (simp add: medicationPoll_def state2_fields medicationTick_state2)
  have due: "dueMedications later ?s1 = [med0, med2]"
    by (simp add: dueMedications_def state2_fields due_later)
  have second: "fire throwsOnAmoxicilina (MedicationPoll later) ?s1
      = ?s1\<lparr>showCalls := [ForMedication ''id_1'', ForMedication ''id_5'',
                            ForMedication ''id_1'', ForMedication ''id_5''],
            notifications := [(medicationTitle, Some (medicationOptions med0)),
                              (medicationTitle, Some (medicationOptions med0))]\<rparr>"
    by (simp add: medicationPoll_def medicationTick_def due state2_fields showNotification_def
        new_Notification_def throwsOnAmoxicilina_simps med_ids)
  from first second show ?thesis by simp
qed

text \<open>
  C1, as stated, fails: the constructor throws for the second of two due medications,
  so neither tick reaches the update of the notified-set, and the first medication is
  passed to the show operation, and notified, in both ticks.
\<close>

theorem medication_shown_twice_counterexample:
  "DailyReset \<notin> set [MedicationPoll afternoon, MedicationPoll later]
   \<and> distinct (map med_id (medications state2))
   \<and> callsSince state2
        (run throwsOnAmoxicilina [MedicationPoll afternoon, MedicationPoll later] state2)
       = [ForMedication ''id_1'', ForMedication ''id_5'',
          ForMedication ''id_1'', ForMedication ''id_5'']
   \<and> count_list
        (callsSince state2
           (run throwsOnAmoxicilina [MedicationPoll afternoon, MedicationPoll later] state2))
        (ForMedication ''id_1'') = 2
   \<and> notifications
        (run throwsOnAmoxicilina [MedicationPoll afternoon, MedicationPoll later] state2)
       = [(medicationTitle, Some (medicationOptions med0)),
          (medicationTitle, Some (medicationOptions med0))]"
  unfolding medicationTick_throwing_twice
  by (simp add: callsSince_def state2_fields med_ids)

text \<open>
  C1, amended. In every run of events without a daily reset, over medications whose
  ids are unique (those present and those added), and in which the constructor never
  throws, each medication id is passed to the show operation at most once, however many
  ticks find it due and not taken, and never if it is already in the notified-set. A
  tick calls the show operation only for medications whose id is absent from the
  notified-set, once each, and then adds the ids of all of them to the notified-set.
\<close>

theorem medication_shown_once:
  assumes "\<forall>title options. \<not> throws title options"
    and "DailyReset \<notin> set events"
    and "distinct (map med_id (medications s) @ addedMedicationIds events)"
  shows "count_list (callsSince s (run throws events s)) (ForMedication i) \<le> 1
     \<and> (i \<in> notifiedIds s \<longrightarrow> ForMedication i \<notin> set (callsSince s (run throws events s)))
     \<and> set (map med_id (dueMedications now s)) \<inter> notifiedIds s = {}
     \<and> callsSince s (state_of (medicationTick throws now s))
         = map (\<lambda>med. ForMedication (med_id med)) (dueMedications now s)
     \<and> notifiedIds (state_of (medicationTick throws now s))
         = notifiedIds s \<union> set (map med_id (dueMedications now s))"
proof -
  from run_budget [OF assms, of i] obtain cs where
    cs: "showCalls (run throws events s) = showCalls s @ cs"
    "count_list cs (ForMedication i) + (if i \<in> notifiedIds (run throws events s) then 0 else 1)
       \<le> (if i \<in> notifiedIds s then 0 else 1)"
    by blast
  from cs(1) have c: "callsSince s (run throws events s) = cs"
    by (rule callsSince_append)
  from cs(2) have once: "count_list cs (ForMedication i) \<le> 1"
    by (simp split: if_splits)
  from cs(2) have never: "i \<in> notifiedIds s \<longrightarrow> ForMedication i \<notin> set cs"
    by (auto simp: count_list_0_iff split: if_splits)
  from assms(1) have r: "returned (medicationTick throws now s)"
    by (simp add: medicationTick_returned)
  with medicationTick_calls [of now s throws]
  have "showCalls (state_of (medicationTick throws now s))
      = showCalls s @ map (\<lambda>med. ForMedication (med_id med)) (dueMedications now s)"
    by auto
  then have t: "callsSince s (state_of (medicationTick throws now s))
      = map (\<lambda>med. ForMedication (med_id med)) (dueMedications now s)"
    by (rule callsSince_append)
  from r have n: "notifiedIds (state_of (medicationTick throws now s))
      = notifiedIds s \<union> set (map med_id (dueMedications now s))"
    by (simp add: medicationTick_notifiedIds)
  from c once never t n dueMedications_ids(2) [of now s] show ?thesis
    by simp
qed

lemma run_events0:
  "showCalls (run neverThrows events0 state2)
   = [ForMedication ''id_1'', ForMedication ''id_5'', ForMedication ''id_9'']"
proof -
  let ?n0 = "(medicationTitle, Some (medicationOptions med0))"
  let ?n2 = "(medicationTitle, Some (medicationOptions med2))"
  let ?s1 = "state2\<lparr>showCalls := [ForMedication ''id_1'', ForMedication ''id_5''],
               notifications := [?n0, ?n2], notifiedIds := {''id_1'', ''id_5''}\<rparr>"
  let ?med9 = "\<lparr>med_id = ''id_9'', med_name = ''Paracetamol'', med_dosage = [],
                 med_time = ''10:00'', isTaken = False\<rparr>"
  let ?s3 = "?s1\<lparr>medications := [med0, med2\<lparr>isTaken := True\<rparr>, ?med9]\<rparr>"
  have first: "fire neverThrows (MedicationPoll afternoon) state2 = ?s1"
    by (simp add: medicationPoll_def medicationTick_def dueMedications_state2 state2_fields
        showNotification_def new_Notification_def neverThrows_def med_ids)
  have second: "fire neverThrows (ToggleMedicationTaken ''id_5'') ?s1
      = ?s1\<lparr>medications := [med0, med2\<lparr>isTaken := True\<rparr>]\<rparr>"
    by (simp add: toggleMedicationTaken_def state2_fields med_ids)
      (simp add: med2_def)
  have third: "fire neverThrows (AddMedication ''id_9'' form0)
        (?s1\<lparr>medications := [med0, med2\<lparr>isTaken := True\<rparr>]\<rparr>) = ?s3"
    by (simp add: addMedication_def form0_def state2_fields)
  have due9: "isMedicationDue ?med9 later"
    by (simp add: isMedicationDue_def later_def afternoon_def numberAt_def
      js_Number_def isDigit_def decimal_def digitVal_def setHours_def date_gt_def msPerDay_def
      msPerHour_def msPerMinute_def)
  have taken: "\<not> isMedicationDue (med2\<lparr>isTaken := True\<rparr>) later"
    by (simp add: isMedicationDue_def)
  have due: "dueMedications later ?s3 = [?med9]"
    by (simp add: dueMedications_def due9 taken med_ids)
  have fourth: "showCalls (fire neverThrows (MedicationPoll later) ?s3)
      = [ForMedication ''id_1'', ForMedication ''id_5'', ForMedication ''id_9'']"
    by (simp add: medicationPoll_def medicationTick_def due state2_fields showNotification_def
        new_Notification_def neverThrows_def)
  from first second third fourth show ?thesis
    by (simp add: events0_def)
qed

theorem medication_shown_once_witness:
  "(\<forall>title options. \<not> neverThrows title options)
   \<and> DailyReset \<notin> set events0
   \<and> distinct (map med_id (medications state2) @ addedMedicationIds events0)
   \<and> callsSince state2 (run neverThrows events0 state2)
       = [ForMedication ''id_1'', ForMedication ''id_5'', ForMedication ''id_9'']
   \<and> count_list (callsSince state2 (run neverThrows events0 state2)) (ForMedication ''id_1'') \<le> 1
   \<and> ''id_1'' \<in> notifiedIds state0
   \<and> ForMedication ''id_1'' \<notin> set (callsSince state0 (run neverThrows events0 state0))
   \<and> callsSince state2 (state_of (medicationTick neverThrows afternoon state2))
       = [ForMedication ''id_1'', ForMedication ''id_5'']
   \<and> notifiedIds (state_of (medicationTick neverThrows afternoon state2)) = {''id_1'', ''id_5''}"
proof -
  have h1: "\<forall>title options. \<not> neverThrows title options"
    by (simp add: neverThrows_def)
  have h2: "DailyReset \<notin> set events0"
    by (simp add: events0_def)
  have h3: "distinct (map med_id (medications state2) @ addedMedicationIds events0)"
    by (simp add: events0_def state2_fields med_ids)
  have h3': "distinct (map med_id (medications state0) @ addedMedicationIds events0)"
    by (simp add: events0_def state0_def med_ids)
  have n: "''id_1'' \<in> notifiedIds state0"
    by (simp add: state0_def)
  have c: "callsSince state2 (run neverThrows events0 state2)
       = [ForMedication ''id_1'', ForMedication ''id_5'', ForMedication ''id_9'']"
    by (simp add: callsSince_def run_events0 state2_fields)
  have a: "count_list (callsSince state2 (run neverThrows events0 state2))
        (ForMedication ''id_1'') \<le> 1
      \<and> callsSince state2 (state_of (medicationTick neverThrows afternoon state2))
          = [ForMedication ''id_1'', ForMedication ''id_5'']
      \<and> notifiedIds (state_of (medicationTick neverThrows afternoon state2))
          = {''id_1'', ''id_5''}"
    using medication_shown_once [OF h1 h2 h3, of "''id_1''" afternoon]
    by (simp add: dueMedications_state2 state2_fields med_ids)
  have b: "ForMedication ''id_1'' \<notin> set (callsSince state0 (run neverThrows events0 state0))"
    using medication_shown_once [OF h1 h2 h3', of "''id_1''" afternoon] n
    by blast
  from h1 h2 h3 n c a b show ?thesis
    by blast
qed

section \<open>Deleting a medication\<close>

lemma state0_fields:
  "permission state0 = Granted" "medications state0 = [med0, med1]"
  "notifiedIds state0 = {''id_1''}" "medId (tooltip state0) = Some ''id_1''"
  "showCalls state0 = []" "appointments state0 = [appt0]"
  by (simp_all add: state0_def)








section \<open>The appointment one-shot invariant\<close>

lemma state3_fields:
  "permission state3 = Granted" "appointments state3 = [appt0\<lparr>notified := True\<rparr>]"
  "showCalls state3 = []"
  by (simp_all add: state3_def state0_def)

lemma appt0_upcoming: "isAppointmentUpcoming 1710500000000 appt0"
  by (simp add: upcoming_iff appt0_def parse_appt0 msPerHour_def)

lemma appointmentTick_alwaysThrows:
  "appointmentTick alwaysThrows 1710500000000 state0
   = Threw TypeError (state0\<lparr>showCalls := [ForAppointment ''id_7'']\<rparr>)"
proof -
  have "upcomingAppointments 1710500000000 state0 = [appt0]"
    by (simp add: upcomingAppointments_def state0_fields appt0_upcoming)
  moreover have "appt_id appt0 = ''id_7''"
    by (simp add: appt0_def)
  ultimately show ?thesis
    by (simp add: appointmentTick_def showNotification_def new_Notification_def
        alwaysThrows_def state0_fields)
qed

text \<open>
  C4, as stated, fails in its second half: the tick matches an appointment as upcoming,
  the constructor throws, and the appointment's notified flag is not set.
\<close>

theorem appointmentTick_throw_counterexample:
  "permission state0 = Granted
   \<and> upcomingAppointments 1710500000000 state0 = [appt0]
   \<and> \<not> notified appt0
   \<and> alwaysThrows appointmentTitle (Some (appointmentOptions appt0))
   \<and> appointments (state_of (appointmentTick alwaysThrows 1710500000000 state0)) = [appt0]
   \<and> appointments (state_of (appointmentTick alwaysThrows 1710500000000 state0))
       \<noteq> [appt0\<lparr>notified := True\<rparr>]"
  by (simp add: appointmentTick_alwaysThrows upcomingAppointments_def state0_fields
      appt0_upcoming alwaysThrows_def)
    (simp add: appt0_def)

text \<open>
  C4, amended. For every appointment whose notified flag is true, with ids unique and
  no appointment added under its id, no later event invokes the show operation for it,
  and the record stays as it is, notified, until it is deleted. A tick never changes a
  notified appointment nor the length or order of the collection. A tick whose calls of
  the show operation all return sets notified = true on exactly the appointments it
  matched as upcoming (ids unique) and leaves every other record untouched; a tick in
  which the constructor throws for a matched appointment ends with that exception and
  leaves all records untouched.
\<close>

theorem appointment_one_shot:
  "(appt \<in> set (appointments s) \<and> notified appt \<and> distinct (map appt_id (appointments s))
      \<and> appt_id appt \<notin> set (addedAppointmentIds events) \<longrightarrow>
      ForAppointment (appt_id appt) \<notin> set (callsSince s (run throws events s))
      \<and> (\<forall>a \<in> set (appointments (run throws events s)). appt_id a = appt_id appt \<longrightarrow> a = appt))
   \<and> length (appointments (state_of (appointmentTick throws now s))) = length (appointments s)
   \<and> (\<forall>k < length (appointments s). notified (appointments s ! k) \<longrightarrow>
         appointments (state_of (appointmentTick throws now s)) ! k = appointments s ! k)
   \<and> returned (appointmentTick throws now s)
       = (permission s \<noteq> Granted
          \<or> (\<forall>a \<in> set (upcomingAppointments now s).
                \<not> throws appointmentTitle (Some (appointmentOptions a))))
   \<and> (returned (appointmentTick throws now s) \<and> distinct (map appt_id (appointments s)) \<longrightarrow>
        appointments (state_of (appointmentTick throws now s))
          = map (\<lambda>a. if isAppointmentUpcoming now a then a\<lparr>notified := True\<rparr> else a)
              (appointments s))
   \<and> (\<not> returned (appointmentTick throws now s) \<longrightarrow>
        appointments (state_of (appointmentTick throws now s)) = appointments s)"
proof -
  let ?t = "appointmentTick throws now s"
  have run_part: "ForAppointment (appt_id appt) \<notin> set (callsSince s (run throws events s))
      \<and> (\<forall>a \<in> set (appointments (run throws events s)). appt_id a = appt_id appt \<longrightarrow> a = appt)"
    if h: "appt \<in> set (appointments s)" "notified appt"
      "distinct (map appt_id (appointments s))"
      "appt_id appt \<notin> set (addedAppointmentIds events)"
  proof -
    from h(3) have inj: "inj_on appt_id (set (appointments s))"
      by (simp add: distinct_map)
    have same: "a = appt" if "a \<in> set (appointments s)" "appt_id a = appt_id appt" for a
      using inj that h(1) by (auto dest: inj_onD)
    with h(2) have k: "\<forall>a \<in> set (appointments s). appt_id a = appt_id appt \<longrightarrow> notified a"
      by blast
    from run_notified_appointment [OF k h(4), of throws] obtain cs where
      cs: "showCalls (run throws events s) = showCalls s @ cs"
      "ForAppointment (appt_id appt) \<notin> set cs"
      "\<forall>a \<in> set (appointments (run throws events s)).
          appt_id a = appt_id appt \<longrightarrow> notified a \<and> a \<in> set (appointments s)"
      by blast
    from cs(1) have "callsSince s (run throws events s) = cs"
      by (rule callsSince_append)
    with cs(2,3) same show ?thesis by blast
  qed
  have len: "length (appointments (state_of ?t)) = length (appointments s)"
    by (simp add: appointmentTick_appointments)
  have keep: "\<forall>k < length (appointments s). notified (appointments s ! k) \<longrightarrow>
         appointments (state_of ?t) ! k = appointments s ! k"
    by (simp add: appointmentTick_appointments markNotified_notified)
  have exact: "appointments (state_of ?t)
          = map (\<lambda>a. if isAppointmentUpcoming now a then a\<lparr>notified := True\<rparr> else a)
              (appointments s)"
    if "returned ?t" "distinct (map appt_id (appointments s))"
  proof -
    from that(1) have "appointments (state_of ?t)
        = map (markNotified (upcomingAppointments now s)) (appointments s)"
      by (simp add: appointmentTick_appointments)
    also have "\<dots> = map (\<lambda>a. if isAppointmentUpcoming now a then a\<lparr>notified := True\<rparr> else a)
              (appointments s)"
      unfolding upcomingAppointments_def
      by (rule map_cong [OF refl]) (rule markNotified_distinct [OF that(2)])
    finally show ?thesis .
  qed
  have abort: "\<not> returned ?t \<longrightarrow> appointments (state_of ?t) = appointments s"
    by (simp add: appointmentTick_appointments)
  from run_part len keep exact abort appointmentTick_returned [of throws now s]
  show ?thesis by blast
qed

theorem appointment_one_shot_witness:
  "appt0\<lparr>notified := True\<rparr> \<in> set (appointments state3)
   \<and> notified (appt0\<lparr>notified := True\<rparr>)
   \<and> distinct (map appt_id (appointments state3))
   \<and> appt_id (appt0\<lparr>notified := True\<rparr>) \<notin> set (addedAppointmentIds events2)
   \<and> ForAppointment ''id_7'' \<notin> set (callsSince state3 (run neverThrows events2 state3))
   \<and> \<not> (\<exists>a \<in> set (appointments (run neverThrows events2 state3)).
           appt_id a = ''id_7'' \<and> a \<noteq> appt0\<lparr>notified := True\<rparr>)
   \<and> (0::nat) < length (appointments state3) \<and> notified (appointments state3 ! 0)
   \<and> appointments (state_of (appointmentTick neverThrows 1710500000000 state3)) ! 0
       = appt0\<lparr>notified := True\<rparr>
   \<and> returned (appointmentTick neverThrows 1710500000000 state0)
   \<and> distinct (map appt_id (appointments state0))
   \<and> appointments (state_of (appointmentTick neverThrows 1710500000000 state0))
       = [appt0\<lparr>notified := True\<rparr>]
   \<and> \<not> returned (appointmentTick alwaysThrows 1710500000000 state0)
   \<and> appointments (state_of (appointmentTick alwaysThrows 1710500000000 state0)) = [appt0]"
proof -
  let ?a = "appt0\<lparr>notified := True\<rparr>"
  have i: "appt_id ?a = ''id_7''" "appt_id appt0 = ''id_7''"
    by (simp_all add: appt0_def)
  have h: "?a \<in> set (appointments state3)" "notified ?a"
    "distinct (map appt_id (appointments state3))"
    "appt_id ?a \<notin> set (addedAppointmentIds events2)"
    by (simp_all add: state3_fields events2_def i)
  have u: "upcomingAppointments 1710500000000 state0 = [appt0]"
    by (simp add: upcomingAppointments_def state0_fields appt0_upcoming)
  have r: "returned (appointmentTick neverThrows 1710500000000 state0)"
    using appointment_one_shot [of ?a state0 events2 neverThrows 1710500000000]
    by (simp add: neverThrows_def)
  have nr: "\<not> returned (appointmentTick alwaysThrows 1710500000000 state0)"
    using appointment_one_shot [of ?a state0 events2 alwaysThrows 1710500000000]
    by (simp add: alwaysThrows_def u state0_fields)
  have d: "distinct (map appt_id (appointments state0))"
    by (simp add: state0_fields)
  have one: "ForAppointment ''id_7'' \<notin> set (callsSince state3 (run neverThrows events2 state3))
      \<and> (\<forall>a \<in> set (appointments (run neverThrows events2 state3)).
            appt_id a = ''id_7'' \<longrightarrow> a = ?a)"
    using appointment_one_shot [of ?a state3 events2 neverThrows 1710500000000] h i(1)
    by simp
  have k: "appointments (state_of (appointmentTick neverThrows 1710500000000 state3)) ! 0 = ?a"
    using appointment_one_shot [of ?a state3 events2 neverThrows 1710500000000]
    by (simp add: state3_fields)
  have e: "appointments (state_of (appointmentTick neverThrows 1710500000000 state0)) = [?a]"
    using appointment_one_shot [of ?a state0 events2 neverThrows 1710500000000] r d
    by (simp add: state0_fields appt0_upcoming)
  have t: "appointments (state_of (appointmentTick alwaysThrows 1710500000000 state0)) = [appt0]"
    using appointment_one_shot [of ?a state0 events2 alwaysThrows 1710500000000] nr
    by (simp add: state0_fields)
  have z: "(0::nat) < length (appointments state3)" "notified (appointments state3 ! 0)"
    by (simp_all add: state3_fields)
  from one have one': "ForAppointment ''id_7''
        \<notin> set (callsSince state3 (run neverThrows events2 state3))"
      "\<not> (\<exists>a \<in> set (appointments (run neverThrows events2 state3)).
           appt_id a = ''id_7'' \<and> a \<noteq> ?a)"
    by blast+
  from h one' z k r d e nr t show ?thesis
    by blast
qed

end
